theory Spec2Isabelle
  imports Complex_Main
begin

section \<open>Numbers, exceptions and array primitives\<close>

text \<open>
  The two scripts \<^verbatim>\<open>alien_weaponry.py\<close> and \<^verbatim>\<open>copyandpaste.py\<close> compute with Python
  floats and numpy float64 scalars. Both are idealised here as \<^typ>\<open>real\<close>: every
  operation is the exact operation, written in the order of the source. Rounding, the
  values inf and nan, and the conditions under which float arithmetic raises are outside
  real arithmetic. An exception raised by the arithmetic of a loop body is therefore an
  input of the model (a \<open>fault\<close>: which exception, and after how many statements of the
  body), and the handlers of the source are modelled on it.

  Where numpy returns inf or nan (a division by zero, the square root of a negative
  number, \<open>log1p\<close> at or below \<open>-1\<close>), the functions of HOL return some real number.
  The constants are literals of the scripts; the definitions take them as a record \<open>k\<close>
  so that the two scripts can be compared. For \<open>observer_interval k = 0\<close> Python raises
  at \<open>i % observer_interval\<close> where \<open>mod\<close> returns \<open>i\<close>, and for \<open>time_steps k = 0\<close>
  it raises where \<open>dt\<close> is computed: the theorems of the claims are about the
  constants of the scripts, or assume \<open>0 < observer_interval k\<close> and \<open>0 < dt k\<close>.
\<close>

datatype exn = OverflowError | ZeroDivisionError | TypeError

text \<open>
  A fault \<open>(e, p)\<close> of an iteration: the first \<open>p\<close> statements of the try body were
  executed and the next one raised \<open>e\<close>. A statement that raises assigns nothing.
\<close>

type_synonym fault = "exn \<times> nat"

text \<open>\<^verbatim>\<open>np.arange(start, stop, step)\<close>: \<open>ceil((stop - start) / step)\<close> entries
  \<open>start + i * step\<close>, none when that number is not positive.\<close>

definition arange :: "real \<Rightarrow> real \<Rightarrow> real \<Rightarrow> real list" where
  "arange start stop step =
     map (\<lambda>i. start + real i * step) [0..<nat \<lceil>(stop - start) / step\<rceil>]"

text \<open>\<^verbatim>\<open>np.zeros(n)\<close>.\<close>

definition zeros :: "nat \<Rightarrow> real list" where
  "zeros n = replicate n 0"

text \<open>
  \<^verbatim>\<open>arr[i-1]\<close> on a numpy array: for \<open>i = 0\<close> the index \<open>-1\<close> is the last entry. The
  simulation loops start at \<open>i = 1\<close>.
\<close>

definition prev_entry :: "real list \<Rightarrow> nat \<Rightarrow> real" where
  "prev_entry arr i = arr ! (if i = 0 then length arr - 1 else i - 1)"

text \<open>Running the statements of a block in order.\<close>

definition exec :: "('s \<Rightarrow> 's) list \<Rightarrow> 's \<Rightarrow> 's" where
  "exec stmts s = fold (\<lambda>stmt t. stmt t) stmts s"

text \<open>
  A \<^verbatim>\<open>for\<close> loop over a list of indices. An iteration either goes on with a new state
  (\<open>Inr\<close>) or ends the script with an uncaught exception (\<open>Inl\<close>, with the state the
  script died in).
\<close>

fun for_loop :: "(nat \<Rightarrow> 's \<Rightarrow> (exn \<times> 's) + 's) \<Rightarrow> nat list \<Rightarrow> 's \<Rightarrow> (exn \<times> 's) + 's" where
  "for_loop body [] s = Inr s"
| "for_loop body (i # is) s =
     (case body i s of Inl d \<Rightarrow> Inl d | Inr s' \<Rightarrow> for_loop body is s')"

text \<open>
  A \<^verbatim>\<open>try\<close> statement with its \<^verbatim>\<open>except\<close> clauses in order. Without a fault the body
  runs to its end. With a fault \<open>(e, p)\<close> the first \<open>p\<close> statements of the body have
  run; the first clause for \<open>e\<close> runs on that state, and with no clause for \<open>e\<close> the
  exception leaves the statement uncaught. A handler may itself end in an exception.
\<close>

definition try_except ::
  "('s \<Rightarrow> 's) list \<Rightarrow> (exn \<times> ('s \<Rightarrow> (exn \<times> 's) + 's)) list \<Rightarrow> fault option \<Rightarrow> 's
     \<Rightarrow> (exn \<times> 's) + 's" where
  "try_except body handlers flt s =
     (case flt of
        None \<Rightarrow> Inr (exec body s)
      | Some (e, p) \<Rightarrow>
          (let s' = exec (take p body) s
           in case map_of handlers e of
                None \<Rightarrow> Inl (e, s')
              | Some handler \<Rightarrow> handler s'))"

text \<open>
  The state an iteration or a loop ends in, whether the script goes on or dies there.
\<close>

definition final_state :: "(exn \<times> 's) + 's \<Rightarrow> 's" where
  "final_state r = (case r of Inl (e, s) \<Rightarrow> s | Inr s \<Rightarrow> s)"

text \<open>
  Counting the iterations. \<open>counted body\<close> is the body with a counter beside the state:
  every entry into the body adds one, whether the body goes on or dies. The number of
  iterations of a loop is the counter at the end of the same \<open>for_loop\<close>, run with the
  counted body from 0; \<open>uncounted\<close> forgets the counter again.
\<close>

definition counted ::
  "(nat \<Rightarrow> 's \<Rightarrow> (exn \<times> 's) + 's) \<Rightarrow> nat \<Rightarrow> nat \<times> 's \<Rightarrow> (exn \<times> nat \<times> 's) + nat \<times> 's" where
  "counted body i ns =
     (case body i (snd ns) of
        Inl (e, s') \<Rightarrow> Inl (e, Suc (fst ns), s')
      | Inr s' \<Rightarrow> Inr (Suc (fst ns), s'))"

definition uncounted :: "(exn \<times> nat \<times> 's) + nat \<times> 's \<Rightarrow> (exn \<times> 's) + 's" where
  "uncounted r = (case r of Inl (e, n, s) \<Rightarrow> Inl (e, s) | Inr (n, s) \<Rightarrow> Inr s)"

definition iterations_run :: "(nat \<Rightarrow> 's \<Rightarrow> (exn \<times> 's) + 's) \<Rightarrow> nat list \<Rightarrow> 's \<Rightarrow> nat" where
  "iterations_run body js s = fst (final_state (for_loop (counted body) js (0, s)))"

text \<open>No exception before the first \<open>n\<close> statements of the body have run.\<close>

definition none_before :: "nat \<Rightarrow> fault option \<Rightarrow> bool" where
  "none_before n flt = (case flt of None \<Rightarrow> True | Some (e, p) \<Rightarrow> n \<le> p)"

section \<open>Constants and state of the scripts\<close>

text \<open>
  The named constants that both scripts define. \<^verbatim>\<open>copyandpaste.py\<close> adds the constant
  \<open>acceleration\<close>; \<^verbatim>\<open>alien_weaponry.py\<close> adds \<open>initial_acceleration\<close> and
  \<open>max_acceleration\<close>.
\<close>

record sim_consts =
  c :: real
  B :: real
  damping_factor :: real
  mass_particle :: real
  num_particles :: real
  cap_value :: real
  observer_influence_factor :: real
  observer_interval :: nat
  initial_observers :: real
  volume_per_observer :: real
  total_time :: real
  time_steps :: real

record cp_consts = sim_consts +
  acceleration :: real

record aw_consts = sim_consts +
  initial_acceleration :: real
  max_acceleration :: real

definition cp_constants :: cp_consts where
  "cp_constants = \<lparr> c = 3 * 10 ^ 8, B = 30, damping_factor = 1 / 10 ^ 5,
     mass_particle = 167 / 10 ^ 29, num_particles = 10 ^ 30, cap_value = 10 ^ 24,
     observer_influence_factor = 11 / 10, observer_interval = 45, initial_observers = 1,
     volume_per_observer = 1, total_time = 9600, time_steps = 96000,
     acceleration = 981 / 100 \<rparr>"

definition aw_constants :: aw_consts where
  "aw_constants = \<lparr> c = 3 * 10 ^ 8, B = 40, damping_factor = 1 / 10 ^ 5,
     mass_particle = 170 / 10 ^ 29, num_particles = 10 ^ 45, cap_value = 10 ^ 35,
     observer_influence_factor = 11 / 10, observer_interval = 100, initial_observers = 1,
     volume_per_observer = 1, total_time = 6900, time_steps = 69000,
     initial_acceleration = 22 / 10, max_acceleration = 1381 / 100 \<rparr>"

text \<open>\<^verbatim>\<open>dt = total_time / time_steps\<close> and \<^verbatim>\<open>time_array = np.arange(0, total_time, dt)\<close>.\<close>

definition dt :: "'a sim_consts_scheme \<Rightarrow> real" where
  "dt k = total_time k / time_steps k"

definition time_array :: "'a sim_consts_scheme \<Rightarrow> real list" where
  "time_array k = arange 0 (total_time k) (dt k)"

text \<open>\<^verbatim>\<open>mu_0 = 4 * np.pi * 1e-7\<close>.\<close>

definition mu_0 :: real where
  "mu_0 = 4 * pi * (1 / 10 ^ 7)"

text \<open>
  The variables and result arrays of \<^verbatim>\<open>copyandpaste.py\<close>; \<^verbatim>\<open>alien_weaponry.py\<close> has
  them all and more. \<open>observer_factor\<close> and \<open>volume\<close> are unbound before the first
  iteration assigns them and are not read before.
\<close>

record sim_state =
  plasma_velocity :: real
  lorentz_factor :: real
  energy_density :: real
  field_strength :: real
  temperature :: real
  pressure :: real
  quantum_tunneling_probability :: real
  spacetime_curvature :: real
  current_observers :: real
  observer_factor :: real
  volume :: real
  plasma_velocity_array :: "real list"
  lorentz_factor_array :: "real list"
  energy_density_array :: "real list"
  field_strength_array :: "real list"
  temperature_array :: "real list"
  pressure_array :: "real list"
  quantum_tunneling_probability_array :: "real list"
  spacetime_curvature_array :: "real list"
  volume_array :: "real list"

text \<open>
  The further variables and arrays of \<^verbatim>\<open>alien_weaponry.py\<close>. Its loop variable
  \<^verbatim>\<open>acceleration\<close> is \<open>acceleration_var\<close> here, the name being the constant of the
  other script.
\<close>

record aw_state = sim_state +
  current_time :: real
  acceleration_var :: real
  time_dilation :: real
  dimension_portal_probability :: real
  time_dilation_array :: "real list"
  dimension_portal_probability_array :: "real list"

text \<open>The result arrays, in the order in which the loop bodies store them.\<close>

definition arrays :: "'a sim_state_scheme \<Rightarrow> real list list" where
  "arrays s =
     [plasma_velocity_array s, lorentz_factor_array s, energy_density_array s,
      field_strength_array s, temperature_array s, pressure_array s,
      quantum_tunneling_probability_array s, spacetime_curvature_array s, volume_array s]"

definition aw_arrays :: "aw_state \<Rightarrow> real list list" where
  "aw_arrays s = arrays s @ [time_dilation_array s, dimension_portal_probability_array s]"

section \<open>Statements that both loop bodies contain\<close>

text \<open>
  Each definition is one statement of a loop body as a state transformer. The statements
  of this section stand, with the same text, in both scripts; \<open>k\<close> is the record of the
  script's constants and \<open>i\<close> the loop index.
\<close>

text \<open>\<^verbatim>\<open>observer_factor = np.log1p(observer_influence_factor * current_observers)\<close>\<close>

definition update_observer_factor ::
  "'b sim_consts_scheme \<Rightarrow> 'a sim_state_scheme \<Rightarrow> 'a sim_state_scheme" where
  "update_observer_factor k s =
     s\<lparr>observer_factor := ln (1 + observer_influence_factor k * current_observers s)\<rparr>"

text \<open>\<^verbatim>\<open>field_strength *= observer_factor\<close>\<close>

definition update_field_strength :: "'a sim_state_scheme \<Rightarrow> 'a sim_state_scheme" where
  "update_field_strength s = s\<lparr>field_strength := field_strength s * observer_factor s\<rparr>"

text \<open>\<^verbatim>\<open>if field_strength > cap_value: field_strength = cap_value\<close>\<close>

definition cap_field_strength ::
  "'b sim_consts_scheme \<Rightarrow> 'a sim_state_scheme \<Rightarrow> 'a sim_state_scheme" where
  "cap_field_strength k s =
     (if field_strength s > cap_value k then s\<lparr>field_strength := cap_value k\<rparr> else s)"

text \<open>\<^verbatim>\<open>energy_density = min(0.5 * (field_strength**2) * (plasma_velocity**2), cap_value)\<close>\<close>

definition update_energy_density ::
  "'b sim_consts_scheme \<Rightarrow> 'a sim_state_scheme \<Rightarrow> 'a sim_state_scheme" where
  "update_energy_density k s =
     s\<lparr>energy_density :=
         min (0.5 * (field_strength s) ^ 2 * (plasma_velocity s) ^ 2) (cap_value k)\<rparr>"

text \<open>\<^verbatim>\<open>volume = current_observers * volume_per_observer\<close>\<close>

definition update_volume ::
  "'b sim_consts_scheme \<Rightarrow> 'a sim_state_scheme \<Rightarrow> 'a sim_state_scheme" where
  "update_volume k s = s\<lparr>volume := current_observers s * volume_per_observer k\<rparr>"

text \<open>\<^verbatim>\<open>temperature += 1e5 * dt\<close>\<close>

definition update_temperature ::
  "'b sim_consts_scheme \<Rightarrow> 'a sim_state_scheme \<Rightarrow> 'a sim_state_scheme" where
  "update_temperature k s = s\<lparr>temperature := temperature s + 10 ^ 5 * dt k\<rparr>"

text \<open>\<^verbatim>\<open>quantum_tunneling_probability = 1 - np.exp(-field_strength / cap_value)\<close>\<close>

definition update_quantum_tunneling_probability ::
  "'b sim_consts_scheme \<Rightarrow> 'a sim_state_scheme \<Rightarrow> 'a sim_state_scheme" where
  "update_quantum_tunneling_probability k s =
     s\<lparr>quantum_tunneling_probability := 1 - exp (- field_strength s / cap_value k)\<rparr>"

text \<open>\<^verbatim>\<open>spacetime_curvature = 2 * energy_density / (c**4)\<close>\<close>

definition update_spacetime_curvature ::
  "'b sim_consts_scheme \<Rightarrow> 'a sim_state_scheme \<Rightarrow> 'a sim_state_scheme" where
  "update_spacetime_curvature k s =
     s\<lparr>spacetime_curvature := 2 * energy_density s / (c k) ^ 4\<rparr>"

text \<open>
  The stores \<^verbatim>\<open>x_array[i] = x\<close>. The loops run \<open>i\<close> over \<open>range(1, len(time_array))\<close>
  and every array has \<open>len(time_array)\<close> entries, so the index is in range there;
  no statement changes the length of an array (\<open>cp_stmt_lengths\<close>, \<open>aw_stmt_lengths\<close>
  below).
\<close>

definition store_plasma_velocity :: "nat \<Rightarrow> 'a sim_state_scheme \<Rightarrow> 'a sim_state_scheme" where
  "store_plasma_velocity i s = s\<lparr>plasma_velocity_array := (plasma_velocity_array s)[i := plasma_velocity s]\<rparr>"

definition store_lorentz_factor :: "nat \<Rightarrow> 'a sim_state_scheme \<Rightarrow> 'a sim_state_scheme" where
  "store_lorentz_factor i s = s\<lparr>lorentz_factor_array := (lorentz_factor_array s)[i := lorentz_factor s]\<rparr>"

definition store_energy_density :: "nat \<Rightarrow> 'a sim_state_scheme \<Rightarrow> 'a sim_state_scheme" where
  "store_energy_density i s = s\<lparr>energy_density_array := (energy_density_array s)[i := energy_density s]\<rparr>"

definition store_field_strength :: "nat \<Rightarrow> 'a sim_state_scheme \<Rightarrow> 'a sim_state_scheme" where
  "store_field_strength i s = s\<lparr>field_strength_array := (field_strength_array s)[i := field_strength s]\<rparr>"

definition store_temperature :: "nat \<Rightarrow> 'a sim_state_scheme \<Rightarrow> 'a sim_state_scheme" where
  "store_temperature i s = s\<lparr>temperature_array := (temperature_array s)[i := temperature s]\<rparr>"

definition store_pressure :: "nat \<Rightarrow> 'a sim_state_scheme \<Rightarrow> 'a sim_state_scheme" where
  "store_pressure i s = s\<lparr>pressure_array := (pressure_array s)[i := pressure s]\<rparr>"

definition store_quantum_tunneling_probability :: "nat \<Rightarrow> 'a sim_state_scheme \<Rightarrow> 'a sim_state_scheme" where
  "store_quantum_tunneling_probability i s = s\<lparr>quantum_tunneling_probability_array := (quantum_tunneling_probability_array s)[i := quantum_tunneling_probability s]\<rparr>"

definition store_spacetime_curvature :: "nat \<Rightarrow> 'a sim_state_scheme \<Rightarrow> 'a sim_state_scheme" where
  "store_spacetime_curvature i s = s\<lparr>spacetime_curvature_array := (spacetime_curvature_array s)[i := spacetime_curvature s]\<rparr>"

definition store_volume :: "nat \<Rightarrow> 'a sim_state_scheme \<Rightarrow> 'a sim_state_scheme" where
  "store_volume i s = s\<lparr>volume_array := (volume_array s)[i := volume s]\<rparr>"

text \<open>
  The copies \<^verbatim>\<open>x_array[i] = x_array[i-1]\<close> of the \<^verbatim>\<open>except OverflowError\<close> blocks.
\<close>

definition carry_plasma_velocity :: "nat \<Rightarrow> 'a sim_state_scheme \<Rightarrow> 'a sim_state_scheme" where
  "carry_plasma_velocity i s = s\<lparr>plasma_velocity_array := (plasma_velocity_array s)[i := prev_entry (plasma_velocity_array s) i]\<rparr>"

definition carry_lorentz_factor :: "nat \<Rightarrow> 'a sim_state_scheme \<Rightarrow> 'a sim_state_scheme" where
  "carry_lorentz_factor i s = s\<lparr>lorentz_factor_array := (lorentz_factor_array s)[i := prev_entry (lorentz_factor_array s) i]\<rparr>"

definition carry_field_strength :: "nat \<Rightarrow> 'a sim_state_scheme \<Rightarrow> 'a sim_state_scheme" where
  "carry_field_strength i s = s\<lparr>field_strength_array := (field_strength_array s)[i := prev_entry (field_strength_array s) i]\<rparr>"

definition carry_temperature :: "nat \<Rightarrow> 'a sim_state_scheme \<Rightarrow> 'a sim_state_scheme" where
  "carry_temperature i s = s\<lparr>temperature_array := (temperature_array s)[i := prev_entry (temperature_array s) i]\<rparr>"

definition carry_pressure :: "nat \<Rightarrow> 'a sim_state_scheme \<Rightarrow> 'a sim_state_scheme" where
  "carry_pressure i s = s\<lparr>pressure_array := (pressure_array s)[i := prev_entry (pressure_array s) i]\<rparr>"

definition carry_quantum_tunneling_probability :: "nat \<Rightarrow> 'a sim_state_scheme \<Rightarrow> 'a sim_state_scheme" where
  "carry_quantum_tunneling_probability i s = s\<lparr>quantum_tunneling_probability_array := (quantum_tunneling_probability_array s)[i := prev_entry (quantum_tunneling_probability_array s) i]\<rparr>"

definition carry_spacetime_curvature :: "nat \<Rightarrow> 'a sim_state_scheme \<Rightarrow> 'a sim_state_scheme" where
  "carry_spacetime_curvature i s = s\<lparr>spacetime_curvature_array := (spacetime_curvature_array s)[i := prev_entry (spacetime_curvature_array s) i]\<rparr>"

definition carry_volume :: "nat \<Rightarrow> 'a sim_state_scheme \<Rightarrow> 'a sim_state_scheme" where
  "carry_volume i s = s\<lparr>volume_array := (volume_array s)[i := prev_entry (volume_array s) i]\<rparr>"

section \<open>The simulation loop of copyandpaste.py\<close>

text \<open>\<^verbatim>\<open>plasma_velocity += (acceleration - damping_factor * plasma_velocity) * dt\<close>\<close>

definition cp_update_plasma_velocity :: "cp_consts \<Rightarrow> sim_state \<Rightarrow> sim_state" where
  "cp_update_plasma_velocity k s =
     s\<lparr>plasma_velocity :=
         plasma_velocity s + (acceleration k - damping_factor k * plasma_velocity s) * dt k\<rparr>"

text \<open>\<^verbatim>\<open>lorentz_factor = 1 / np.sqrt(1 - (plasma_velocity / c)**2) if plasma_velocity < c
  else plasma_velocity / c\<close>\<close>

definition cp_update_lorentz_factor :: "cp_consts \<Rightarrow> sim_state \<Rightarrow> sim_state" where
  "cp_update_lorentz_factor k s =
     s\<lparr>lorentz_factor :=
         (if plasma_velocity s < c k then 1 / sqrt (1 - (plasma_velocity s / c k) ^ 2)
          else plasma_velocity s / c k)\<rparr>"

text \<open>
  \<^verbatim>\<open>if i % observer_interval == 0:\<close>
  \<^verbatim>\<open>    current_observers *= 2\<close>
  \<^verbatim>\<open>    if current_observers > 1e6: current_observers = 1e6\<close>
\<close>

definition cp_apply_observer_influence :: "cp_consts \<Rightarrow> nat \<Rightarrow> sim_state \<Rightarrow> sim_state" where
  "cp_apply_observer_influence k i s =
     (if i mod observer_interval k = 0
      then (let s1 = s\<lparr>current_observers := current_observers s * 2\<rparr>
            in if current_observers s1 > 10 ^ 6 then s1\<lparr>current_observers := 10 ^ 6\<rparr> else s1)
      else s)"

text \<open>\<^verbatim>\<open>pressure += 500.0 * dt\<close>\<close>

definition cp_update_pressure :: "cp_consts \<Rightarrow> sim_state \<Rightarrow> sim_state" where
  "cp_update_pressure k s = s\<lparr>pressure := pressure s + 500 * dt k\<rparr>"

text \<open>The try body, lines 50 to 92, statement by statement.\<close>

definition cp_stmts :: "cp_consts \<Rightarrow> nat \<Rightarrow> (sim_state \<Rightarrow> sim_state) list" where
  "cp_stmts k i =
     [cp_update_plasma_velocity k,
      cp_update_lorentz_factor k,
      cp_apply_observer_influence k i,
      update_observer_factor k,
      update_field_strength,
      cap_field_strength k,
      update_energy_density k,
      update_volume k,
      update_temperature k,
      cp_update_pressure k,
      update_quantum_tunneling_probability k,
      update_spacetime_curvature k,
      store_plasma_velocity i,
      store_lorentz_factor i,
      store_energy_density i,
      store_field_strength i,
      store_temperature i,
      store_pressure i,
      store_quantum_tunneling_probability i,
      store_spacetime_curvature i,
      store_volume i]"

text \<open>
  The \<^verbatim>\<open>except OverflowError\<close> block, lines 95 to 104 (the \<^verbatim>\<open>print\<close> is not modelled).
  Its third assignment is \<^verbatim>\<open>energy_density_array[i] = cap_value\<close>.
\<close>

definition cp_store_energy_density_cap :: "cp_consts \<Rightarrow> nat \<Rightarrow> sim_state \<Rightarrow> sim_state" where
  "cp_store_energy_density_cap k i s =
     s\<lparr>energy_density_array := (energy_density_array s)[i := cap_value k]\<rparr>"

definition cp_except_OverflowError :: "cp_consts \<Rightarrow> nat \<Rightarrow> sim_state \<Rightarrow> sim_state" where
  "cp_except_OverflowError k i s =
     exec [carry_plasma_velocity i,
           carry_lorentz_factor i,
           cp_store_energy_density_cap k i,
           carry_field_strength i,
           carry_temperature i,
           carry_pressure i,
           carry_quantum_tunneling_probability i,
           carry_spacetime_curvature i,
           carry_volume i] s"

text \<open>The \<^verbatim>\<open>except\<close> clauses of the loop's \<^verbatim>\<open>try\<close> statement: one, after which the
  loop goes on.\<close>

definition cp_handlers ::
  "cp_consts \<Rightarrow> nat \<Rightarrow> (exn \<times> (sim_state \<Rightarrow> (exn \<times> sim_state) + sim_state)) list" where
  "cp_handlers k i = [(OverflowError, \<lambda>s. Inr (cp_except_OverflowError k i s))]"

text \<open>One iteration of the loop: the \<^verbatim>\<open>try\<close> statement of lines 48 to 104.\<close>

definition cp_iteration ::
  "cp_consts \<Rightarrow> fault option \<Rightarrow> nat \<Rightarrow> sim_state \<Rightarrow> (exn \<times> sim_state) + sim_state" where
  "cp_iteration k flt i s = try_except (cp_stmts k i) (cp_handlers k i) flt s"

text \<open>Lines 25 to 44: the arrays and the initial conditions.\<close>

definition cp_initial :: "cp_consts \<Rightarrow> sim_state" where
  "cp_initial k =
     \<lparr> plasma_velocity = 0, lorentz_factor = 1, energy_density = 0,
       field_strength = 10 ^ 20, temperature = 10 ^ 7, pressure = 100000,
       quantum_tunneling_probability = 1 / 10, spacetime_curvature = 1 / 10 ^ 35,
       current_observers = initial_observers k, observer_factor = 0, volume = 0,
       plasma_velocity_array = zeros (length (time_array k)),
       lorentz_factor_array = zeros (length (time_array k)),
       energy_density_array = zeros (length (time_array k)),
       field_strength_array = zeros (length (time_array k)),
       temperature_array = zeros (length (time_array k)),
       pressure_array = zeros (length (time_array k)),
       quantum_tunneling_probability_array = zeros (length (time_array k)),
       spacetime_curvature_array = zeros (length (time_array k)),
       volume_array = zeros (length (time_array k)) \<rparr>"

text \<open>
  \<^verbatim>\<open>for i in range(1, len(time_array))\<close>, run for the iterations \<open>1\<close> to \<open>n - 1\<close> under
  the faults \<open>flts\<close> (\<open>flts i\<close> is the fault of iteration \<open>i\<close>, if any); the whole loop
  is \<open>n = len(time_array)\<close>.
\<close>

definition cp_loop_upto ::
  "cp_consts \<Rightarrow> (nat \<Rightarrow> fault option) \<Rightarrow> nat \<Rightarrow> (exn \<times> sim_state) + sim_state" where
  "cp_loop_upto k flts n = for_loop (\<lambda>i. cp_iteration k (flts i) i) [1..<n] (cp_initial k)"

definition cp_simulation ::
  "cp_consts \<Rightarrow> (nat \<Rightarrow> fault option) \<Rightarrow> (exn \<times> sim_state) + sim_state" where
  "cp_simulation k flts = cp_loop_upto k flts (length (time_array k))"

text \<open>The same loop with the counter, and how often it enters its body.\<close>

definition cp_simulation_counted ::
  "cp_consts \<Rightarrow> (nat \<Rightarrow> fault option) \<Rightarrow> (exn \<times> nat \<times> sim_state) + nat \<times> sim_state" where
  "cp_simulation_counted k flts =
     for_loop (counted (\<lambda>i. cp_iteration k (flts i) i)) [1..<length (time_array k)]
       (0, cp_initial k)"

definition cp_iterations :: "cp_consts \<Rightarrow> (nat \<Rightarrow> fault option) \<Rightarrow> nat" where
  "cp_iterations k flts =
     iterations_run (\<lambda>i. cp_iteration k (flts i) i) [1..<length (time_array k)] (cp_initial k)"

section \<open>The simulation loop of alien_weaponry.py\<close>

text \<open>
  \<^verbatim>\<open>def increasing_acceleration(t, total_time, max_acceleration):\<close>
  \<^verbatim>\<open>    return initial_acceleration + (max_acceleration - initial_acceleration) * (t / total_time)\<close>
  The function reads the global \<open>initial_acceleration\<close>; its parameters shadow the
  globals of the same names.
\<close>

definition increasing_acceleration :: "aw_consts \<Rightarrow> real \<Rightarrow> real \<Rightarrow> real \<Rightarrow> real" where
  "increasing_acceleration k t total_time' max_acceleration' =
     initial_acceleration k + (max_acceleration' - initial_acceleration k) * (t / total_time')"

text \<open>\<^verbatim>\<open>def magnetic_pressure_effect(B): return B**2 / (2 * mu_0)\<close>\<close>

definition magnetic_pressure_effect :: "real \<Rightarrow> real" where
  "magnetic_pressure_effect B' = B' ^ 2 / (2 * mu_0)"

text \<open>\<^verbatim>\<open>current_time = time_array[i]\<close>\<close>

definition aw_read_current_time :: "aw_consts \<Rightarrow> nat \<Rightarrow> aw_state \<Rightarrow> aw_state" where
  "aw_read_current_time k i s = s\<lparr>current_time := time_array k ! i\<rparr>"

text \<open>\<^verbatim>\<open>acceleration = increasing_acceleration(current_time, total_time, max_acceleration)\<close>\<close>

definition aw_update_acceleration :: "aw_consts \<Rightarrow> aw_state \<Rightarrow> aw_state" where
  "aw_update_acceleration k s =
     s\<lparr>acceleration_var :=
         increasing_acceleration k (current_time s) (total_time k) (max_acceleration k)\<rparr>"

text \<open>\<^verbatim>\<open>plasma_velocity += (acceleration - damping_factor * plasma_velocity) * dt\<close>\<close>

definition aw_update_plasma_velocity :: "aw_consts \<Rightarrow> aw_state \<Rightarrow> aw_state" where
  "aw_update_plasma_velocity k s =
     s\<lparr>plasma_velocity :=
         plasma_velocity s + (acceleration_var s - damping_factor k * plasma_velocity s) * dt k\<rparr>"

text \<open>\<^verbatim>\<open>if plasma_velocity >= c: plasma_velocity = c - 1e-10\<close>. (In float64 the
  difference \<open>3e8 - 1e-10\<close> rounds to \<open>3e8\<close>; the branch is not taken in any run of the
  script, see claim C1.)\<close>

definition aw_cap_plasma_velocity :: "aw_consts \<Rightarrow> aw_state \<Rightarrow> aw_state" where
  "aw_cap_plasma_velocity k s =
     (if plasma_velocity s \<ge> c k then s\<lparr>plasma_velocity := c k - 1 / 10 ^ 10\<rparr> else s)"

text \<open>\<^verbatim>\<open>lorentz_factor = 1 / np.sqrt(1 - (plasma_velocity / c)**2)\<close>\<close>

definition aw_update_lorentz_factor :: "aw_consts \<Rightarrow> aw_state \<Rightarrow> aw_state" where
  "aw_update_lorentz_factor k s =
     s\<lparr>lorentz_factor := 1 / sqrt (1 - (plasma_velocity s / c k) ^ 2)\<rparr>"

text \<open>\<^verbatim>\<open>pressure = magnetic_pressure_effect(B)\<close>\<close>

definition aw_update_pressure :: "aw_consts \<Rightarrow> aw_state \<Rightarrow> aw_state" where
  "aw_update_pressure k s = s\<lparr>pressure := magnetic_pressure_effect (B k)\<rparr>"

text \<open>
  \<^verbatim>\<open>if i % observer_interval == 0 and current_observers < 1e6:\<close>
  \<^verbatim>\<open>    current_observers += 2\<close>
\<close>

definition aw_introduce_observers :: "aw_consts \<Rightarrow> nat \<Rightarrow> aw_state \<Rightarrow> aw_state" where
  "aw_introduce_observers k i s =
     (if i mod observer_interval k = 0 \<and> current_observers s < 10 ^ 6
      then s\<lparr>current_observers := current_observers s + 2\<rparr>
      else s)"

text \<open>\<^verbatim>\<open>time_dilation = lorentz_factor * np.sqrt(1 - (2 * spacetime_curvature * mass_particle) / (c**2))\<close>\<close>

definition aw_update_time_dilation :: "aw_consts \<Rightarrow> aw_state \<Rightarrow> aw_state" where
  "aw_update_time_dilation k s =
     s\<lparr>time_dilation :=
         lorentz_factor s
           * sqrt (1 - (2 * spacetime_curvature s * mass_particle k) / (c k) ^ 2)\<rparr>"

text \<open>\<^verbatim>\<open>dimension_portal_probability = np.tanh(spacetime_curvature / cap_value)\<close>\<close>

definition aw_update_dimension_portal_probability :: "aw_consts \<Rightarrow> aw_state \<Rightarrow> aw_state" where
  "aw_update_dimension_portal_probability k s =
     s\<lparr>dimension_portal_probability := tanh (spacetime_curvature s / cap_value k)\<rparr>"

definition store_time_dilation :: "nat \<Rightarrow> aw_state \<Rightarrow> aw_state" where
  "store_time_dilation i s = s\<lparr>time_dilation_array := (time_dilation_array s)[i := time_dilation s]\<rparr>"

definition store_dimension_portal_probability :: "nat \<Rightarrow> aw_state \<Rightarrow> aw_state" where
  "store_dimension_portal_probability i s =
     s\<lparr>dimension_portal_probability_array :=
         (dimension_portal_probability_array s)[i := dimension_portal_probability s]\<rparr>"

text \<open>The try body, lines 64 to 121, statement by statement.\<close>

definition aw_stmts :: "aw_consts \<Rightarrow> nat \<Rightarrow> (aw_state \<Rightarrow> aw_state) list" where
  "aw_stmts k i =
     [aw_read_current_time k i,
      aw_update_acceleration k,
      aw_update_plasma_velocity k,
      aw_cap_plasma_velocity k,
      aw_update_lorentz_factor k,
      aw_update_pressure k,
      store_pressure i,
      aw_introduce_observers k i,
      update_observer_factor k,
      update_field_strength,
      cap_field_strength k,
      update_energy_density k,
      update_volume k,
      update_temperature k,
      update_quantum_tunneling_probability k,
      update_spacetime_curvature k,
      aw_update_time_dilation k,
      aw_update_dimension_portal_probability k,
      store_plasma_velocity i,
      store_lorentz_factor i,
      store_energy_density i,
      store_field_strength i,
      store_temperature i,
      store_pressure i,
      store_quantum_tunneling_probability i,
      store_spacetime_curvature i,
      store_volume i,
      store_time_dilation i,
      store_dimension_portal_probability i]"

text \<open>
  The \<^verbatim>\<open>except OverflowError\<close> block, lines 124 to 135. Its third assignment,
  \<^verbatim>\<open>energy_density_array[i] = cap_value[i-1]\<close>, subscripts the float \<open>cap_value\<close>:
  Python raises \<open>TypeError\<close> there, inside the handler, so the exception leaves the loop
  and the assignments of lines 128 to 135 do not run.
\<close>

definition aw_except_OverflowError :: "nat \<Rightarrow> aw_state \<Rightarrow> exn \<times> aw_state" where
  "aw_except_OverflowError i s =
     (TypeError, exec [carry_plasma_velocity i, carry_lorentz_factor i] s)"

text \<open>
  The \<^verbatim>\<open>except ZeroDivisionError\<close> block, lines 138 to 143. \<^verbatim>\<open>float('inf')\<close> is no
  real number: the parameter \<open>float_inf\<close> is the value that stands for it.
\<close>

definition aw_except_ZeroDivisionError :: "real \<Rightarrow> nat \<Rightarrow> aw_state \<Rightarrow> aw_state" where
  "aw_except_ZeroDivisionError float_inf i s =
     exec [\<lambda>t. t\<lparr>lorentz_factor := float_inf\<rparr>,
           \<lambda>t. t\<lparr>time_dilation := float_inf\<rparr>,
           store_plasma_velocity i,
           store_lorentz_factor i,
           store_time_dilation i] s"

text \<open>The \<^verbatim>\<open>except\<close> clauses of the loop's \<^verbatim>\<open>try\<close> statement, in order.\<close>

definition aw_handlers ::
  "real \<Rightarrow> nat \<Rightarrow> (exn \<times> (aw_state \<Rightarrow> (exn \<times> aw_state) + aw_state)) list" where
  "aw_handlers float_inf i =
     [(OverflowError, \<lambda>s. Inl (aw_except_OverflowError i s)),
      (ZeroDivisionError, \<lambda>s. Inr (aw_except_ZeroDivisionError float_inf i s))]"

text \<open>One iteration of the loop: the \<^verbatim>\<open>try\<close> statement of lines 63 to 143.\<close>

definition aw_iteration ::
  "aw_consts \<Rightarrow> real \<Rightarrow> fault option \<Rightarrow> nat \<Rightarrow> aw_state \<Rightarrow> (exn \<times> aw_state) + aw_state" where
  "aw_iteration k float_inf flt i s = try_except (aw_stmts k i) (aw_handlers float_inf i) flt s"

text \<open>
  Lines 26 to 48: the arrays and the initial conditions. \<open>current_time\<close>,
  \<open>acceleration\<close>, \<open>time_dilation\<close> and \<open>dimension_portal_probability\<close> are unbound
  before the first iteration, as \<open>observer_factor\<close> and \<open>volume\<close> are.
\<close>

definition aw_initial :: "aw_consts \<Rightarrow> aw_state" where
  "aw_initial k =
     \<lparr> plasma_velocity = 0, lorentz_factor = 1, energy_density = 1 / 10 ^ 12,
       field_strength = 1 / 10 ^ 20, temperature = 10 ^ 7, pressure = 100000,
       quantum_tunneling_probability = 1 / 10, spacetime_curvature = 10 ^ 23,
       current_observers = initial_observers k, observer_factor = 0, volume = 0,
       plasma_velocity_array = zeros (length (time_array k)),
       lorentz_factor_array = zeros (length (time_array k)),
       energy_density_array = zeros (length (time_array k)),
       field_strength_array = zeros (length (time_array k)),
       temperature_array = zeros (length (time_array k)),
       pressure_array = zeros (length (time_array k)),
       quantum_tunneling_probability_array = zeros (length (time_array k)),
       spacetime_curvature_array = zeros (length (time_array k)),
       volume_array = zeros (length (time_array k)),
       current_time = 0, acceleration_var = 0, time_dilation = 0,
       dimension_portal_probability = 0,
       time_dilation_array = zeros (length (time_array k)),
       dimension_portal_probability_array = zeros (length (time_array k)) \<rparr>"

definition aw_loop_upto ::
  "aw_consts \<Rightarrow> real \<Rightarrow> (nat \<Rightarrow> fault option) \<Rightarrow> nat \<Rightarrow> (exn \<times> aw_state) + aw_state" where
  "aw_loop_upto k float_inf flts n =
     for_loop (\<lambda>i. aw_iteration k float_inf (flts i) i) [1..<n] (aw_initial k)"

definition aw_simulation ::
  "aw_consts \<Rightarrow> real \<Rightarrow> (nat \<Rightarrow> fault option) \<Rightarrow> (exn \<times> aw_state) + aw_state" where
  "aw_simulation k float_inf flts = aw_loop_upto k float_inf flts (length (time_array k))"

definition aw_simulation_counted ::
  "aw_consts \<Rightarrow> real \<Rightarrow> (nat \<Rightarrow> fault option) \<Rightarrow> (exn \<times> nat \<times> aw_state) + nat \<times> aw_state" where
  "aw_simulation_counted k float_inf flts =
     for_loop (counted (\<lambda>i. aw_iteration k float_inf (flts i) i)) [1..<length (time_array k)]
       (0, aw_initial k)"

definition aw_iterations :: "aw_consts \<Rightarrow> real \<Rightarrow> (nat \<Rightarrow> fault option) \<Rightarrow> nat" where
  "aw_iterations k float_inf flts =
     iterations_run (\<lambda>i. aw_iteration k float_inf (flts i) i)
       [1..<length (time_array k)] (aw_initial k)"

section \<open>What the scripts write to files\<close>

text \<open>
  A written file, by name and content. The content is kept as data: the text of a number
  and the header row of a CSV file are not modelled. The plots are not modelled.
\<close>

datatype export =
    Json_file string "(string \<times> real list) list"
  | Csv_file string "real list list"

text \<open>
  Lines 150 to 166 of \<^verbatim>\<open>alien_weaponry.py\<close>: the dictionary \<open>simulation_data\<close>, dumped
  to \<^verbatim>\<open>simulation_data.json\<close>.
\<close>

definition aw_simulation_data :: "aw_consts \<Rightarrow> aw_state \<Rightarrow> (string \<times> real list) list" where
  "aw_simulation_data k s =
     [(''time_array'', time_array k),
      (''plasma_velocity_array'', plasma_velocity_array s),
      (''lorentz_factor_array'', lorentz_factor_array s),
      (''energy_density_array'', energy_density_array s),
      (''field_strength_array'', field_strength_array s),
      (''temperature_array'', temperature_array s),
      (''pressure_array'', pressure_array s),
      (''quantum_tunneling_probability_array'', quantum_tunneling_probability_array s),
      (''spacetime_curvature_array'', spacetime_curvature_array s),
      (''volume_array'', volume_array s),
      (''time_dilation_array'', time_dilation_array s),
      (''dimension_portal_probability_array'', dimension_portal_probability_array s)]"

text \<open>
  Lines 322 to 336: one row per index of \<open>time_array\<close>, written with \<^verbatim>\<open>csv.writer\<close> to
  \<^verbatim>\<open>simulation_results.csv\<close>.
\<close>

definition aw_csv_row :: "aw_consts \<Rightarrow> aw_state \<Rightarrow> nat \<Rightarrow> real list" where
  "aw_csv_row k s i =
     [time_array k ! i, plasma_velocity_array s ! i, lorentz_factor_array s ! i,
      energy_density_array s ! i, field_strength_array s ! i, temperature_array s ! i,
      pressure_array s ! i, quantum_tunneling_probability_array s ! i,
      spacetime_curvature_array s ! i, time_dilation_array s ! i,
      dimension_portal_probability_array s ! i]"

definition aw_csv_rows :: "aw_consts \<Rightarrow> aw_state \<Rightarrow> real list list" where
  "aw_csv_rows k s = map (aw_csv_row k s) [0..<length (time_array k)]"

text \<open>
  Lines 343 to 361: a second dictionary \<open>simulation_data\<close>, made a pandas DataFrame and
  written with \<^verbatim>\<open>to_csv(index=False)\<close> to \<^verbatim>\<open>simulation_data.csv\<close>: one row per index,
  one column per key.
\<close>

definition aw_dataframe_columns :: "aw_consts \<Rightarrow> aw_state \<Rightarrow> (string \<times> real list) list" where
  "aw_dataframe_columns k s =
     [(''time_array'', time_array k),
      (''plasma_velocity_array'', plasma_velocity_array s),
      (''lorentz_factor_array'', lorentz_factor_array s),
      (''energy_density_array'', energy_density_array s),
      (''field_strength_array'', field_strength_array s),
      (''temperature_array'', temperature_array s),
      (''pressure_array'', pressure_array s),
      (''quantum_tunneling_probability_array'', quantum_tunneling_probability_array s),
      (''spacetime_curvature_array'', spacetime_curvature_array s),
      (''time_dilation_array'', time_dilation_array s),
      (''dimension_portal_probability_array'', dimension_portal_probability_array s)]"

definition aw_dataframe_rows :: "aw_consts \<Rightarrow> aw_state \<Rightarrow> real list list" where
  "aw_dataframe_rows k s =
     map (\<lambda>i. map (\<lambda>col. snd col ! i) (aw_dataframe_columns k s)) [0..<length (time_array k)]"

definition aw_exports :: "aw_consts \<Rightarrow> aw_state \<Rightarrow> export list" where
  "aw_exports k s =
     [Json_file ''simulation_data.json'' (aw_simulation_data k s),
      Csv_file ''simulation_results.csv'' (aw_csv_rows k s),
      Csv_file ''simulation_data.csv'' (aw_dataframe_rows k s)]"

text \<open>
  The scripts from top to bottom: the loop, then the files. An exception that leaves the
  loop ends the script before anything is written. \<^verbatim>\<open>copyandpaste.py\<close> imports neither
  \<^verbatim>\<open>json\<close> nor \<^verbatim>\<open>csv\<close> nor \<^verbatim>\<open>pandas\<close> and opens no file: after its loop it only plots.
\<close>

definition aw_script :: "aw_consts \<Rightarrow> real \<Rightarrow> (nat \<Rightarrow> fault option) \<Rightarrow> exn + export list" where
  "aw_script k float_inf flts =
     (case aw_simulation k float_inf flts of
        Inl (e, s) \<Rightarrow> Inl e
      | Inr s \<Rightarrow> Inr (aw_exports k s))"

definition cp_script :: "cp_consts \<Rightarrow> (nat \<Rightarrow> fault option) \<Rightarrow> exn + export list" where
  "cp_script k flts =
     (case cp_simulation k flts of
        Inl (e, s) \<Rightarrow> Inl e
      | Inr s \<Rightarrow> Inr [])"

text \<open>
  The constants of \<^verbatim>\<open>alien_weaponry.py\<close> set to the values of a record of constants of
  \<^verbatim>\<open>copyandpaste.py\<close>, both accelerations to its \<open>acceleration\<close>.
\<close>

definition aw_with_constants_of :: "cp_consts \<Rightarrow> aw_consts" where
  "aw_with_constants_of k =
     \<lparr> c = c k, B = B k, damping_factor = damping_factor k,
       mass_particle = mass_particle k, num_particles = num_particles k,
       cap_value = cap_value k, observer_influence_factor = observer_influence_factor k,
       observer_interval = observer_interval k, initial_observers = initial_observers k,
       volume_per_observer = volume_per_observer k, total_time = total_time k,
       time_steps = time_steps k,
       initial_acceleration = acceleration k, max_acceleration = acceleration k \<rparr>"

section \<open>Runs without faults, and bounds on the plasma velocity\<close>

text \<open>The run in which no statement raises.\<close>

definition no_faults :: "nat \<Rightarrow> fault option" where
  "no_faults i = None"

text \<open>The run in which iteration \<open>i\<close> raises, with the fault \<open>flt\<close>, and no other does.\<close>

definition fault_at :: "nat \<Rightarrow> fault \<Rightarrow> nat \<Rightarrow> fault option" where
  "fault_at i flt j = (if j = i then Some flt else None)"

text \<open>
  Bounds that the loops keep, with the constants of the scripts: in
  \<^verbatim>\<open>copyandpaste.py\<close> the velocity stays between 0 and
  \<open>acceleration / damping_factor = 981000\<close>; in \<^verbatim>\<open>alien_weaponry.py\<close> between 0 and
  \<open>max_acceleration / damping_factor = 1381000\<close>, the time read from \<open>time_array\<close>
  between 0 and \<open>total_time\<close> and the acceleration between 0 and \<open>max_acceleration\<close>.
\<close>

definition cp_velocity_inv :: "sim_state \<Rightarrow> bool" where
  "cp_velocity_inv s = (0 \<le> plasma_velocity s \<and> plasma_velocity s < 981000)"

definition aw_velocity_inv :: "aw_state \<Rightarrow> bool" where
  "aw_velocity_inv s =
     (0 \<le> plasma_velocity s \<and> plasma_velocity s \<le> 1381000
      \<and> 0 \<le> current_time s \<and> current_time s \<le> 6900
      \<and> 0 \<le> acceleration_var s \<and> acceleration_var s \<le> 1381 / 100)"

section \<open>Blocks, try statements and loops\<close>

lemma exec_Nil: "exec [] s = s"
  by (simp add: exec_def)

lemma exec_Cons: "exec (f # fs) s = exec fs (f s)"
  by (simp add: exec_def)

lemma exec_append: "exec (fs @ gs) s = exec gs (exec fs s)"
  by (simp add: exec_def)

text \<open>What every statement of a block keeps, the block keeps, and so does each of its
  prefixes.\<close>

lemma exec_invariant:
  assumes "\<And>f t. f \<in> set fs \<Longrightarrow> Q t \<Longrightarrow> Q (f t)" and "Q s"
  shows "Q (exec fs s)"
  using assms by (induction fs arbitrary: s) (simp_all add: exec_Nil exec_Cons)

lemma exec_take_invariant:
  assumes "\<And>f t. f \<in> set fs \<Longrightarrow> Q t \<Longrightarrow> Q (f t)" and "Q s"
  shows "Q (exec (take p fs) s)"
  by (rule exec_invariant) (use assms in \<open>auto dest: in_set_takeD\<close>)

lemma final_state_simps [simp]:
  "final_state (Inl (e, s)) = s" "final_state (Inr s) = s"
  by (simp_all add: final_state_def)

lemma try_except_invariant:
  assumes body: "\<And>f t. f \<in> set body \<Longrightarrow> Q t \<Longrightarrow> Q (f t)"
    and handlers: "\<And>e h t. (e, h) \<in> set handlers \<Longrightarrow> Q t \<Longrightarrow> Q (final_state (h t))"
    and start: "Q s"
  shows "Q (final_state (try_except body handlers flt s))"
proof (cases flt)
  case None
  have "Q (exec body s)"
    using body start by (rule exec_invariant [where Q = Q])
  with None show ?thesis
    by (simp add: try_except_def)
next
  case (Some ep)
  obtain e p where ep: "ep = (e, p)" by (cases ep)
  have mid: "Q (exec (take p body) s)"
    using body start by (rule exec_take_invariant [where Q = Q])
  show ?thesis
  proof (cases "map_of handlers e")
    case None
    with Some ep mid show ?thesis by (simp add: try_except_def)
  next
    case (Some h)
    then have "(e, h) \<in> set handlers" by (rule map_of_SomeD)
    from handlers [OF this mid] Some \<open>flt = Some ep\<close> ep show ?thesis
      by (simp add: try_except_def)
  qed
qed

lemma for_loop_snoc:
  "for_loop body (js @ [i]) s =
     (case for_loop body js s of Inl d \<Rightarrow> Inl d | Inr s' \<Rightarrow> body i s')"
  by (induction js arbitrary: s) (simp_all split: sum.splits)

lemma for_loop_invariant:
  assumes step: "\<And>i t. i \<in> set js \<Longrightarrow> Q t \<Longrightarrow> Q (final_state (body i t))"
    and start: "Q s"
  shows "Q (final_state (for_loop body js s))"
  using assms
proof (induction js arbitrary: s)
  case Nil
  then show ?case by simp
next
  case (Cons i js)
  have here: "Q (final_state (body i s))"
    using Cons.prems by simp
  show ?case
  proof (cases "body i s")
    case (Inl d)
    with here show ?thesis by simp
  next
    case (Inr s')
    with here have "Q s'" by simp
    then have "Q (final_state (for_loop body js s'))"
      using Cons.prems(1) by (intro Cons.IH) simp_all
    with Inr show ?thesis by simp
  qed
qed

lemma for_loop_no_fault:
  assumes "\<And>i t. body i t = Inr (g i t)"
  shows "for_loop body js s = Inr (fold g js s)"
  by (induction js arbitrary: s) (simp_all add: assms)

lemma cp_iteration_None: "cp_iteration k None i s = Inr (exec (cp_stmts k i) s)"
  by (simp add: cp_iteration_def try_except_def)

lemma aw_iteration_None: "aw_iteration k float_inf None i s = Inr (exec (aw_stmts k i) s)"
  by (simp add: aw_iteration_def try_except_def)

lemma cp_loop_upto_no_fault:
  "cp_loop_upto k no_faults n = Inr (fold (\<lambda>i. exec (cp_stmts k i)) [1..<n] (cp_initial k))"
  unfolding cp_loop_upto_def no_faults_def
  by (rule for_loop_no_fault) (rule cp_iteration_None)

lemma aw_loop_upto_no_fault:
  "aw_loop_upto k float_inf no_faults n =
     Inr (fold (\<lambda>i. exec (aw_stmts k i)) [1..<n] (aw_initial k))"
  unfolding aw_loop_upto_def no_faults_def
  by (rule for_loop_no_fault) (rule aw_iteration_None)

section \<open>The time grid\<close>

lemma dt_cp: "dt cp_constants = 1 / 10"
  by (simp add: dt_def cp_constants_def)

lemma dt_aw: "dt aw_constants = 1 / 10"
  by (simp add: dt_def aw_constants_def)

lemma length_time_array_cp: "length (time_array cp_constants) = 96000"
  by (simp add: time_array_def arange_def dt_cp) (simp add: cp_constants_def)

lemma length_time_array_aw: "length (time_array aw_constants) = 69000"
  by (simp add: time_array_def arange_def dt_aw) (simp add: aw_constants_def)

lemma time_array_nth: "i < length (time_array k) \<Longrightarrow> time_array k ! i = real i * dt k"
  by (simp add: time_array_def arange_def)

section \<open>The statements of the loop bodies\<close>

lemmas shared_stmt_defs =
  update_observer_factor_def update_field_strength_def cap_field_strength_def
  update_energy_density_def update_volume_def update_temperature_def
  update_quantum_tunneling_probability_def update_spacetime_curvature_def
  store_plasma_velocity_def store_lorentz_factor_def store_energy_density_def
  store_field_strength_def store_temperature_def store_pressure_def
  store_quantum_tunneling_probability_def store_spacetime_curvature_def store_volume_def

lemmas cp_stmt_defs =
  cp_update_plasma_velocity_def cp_update_lorentz_factor_def
  cp_apply_observer_influence_def cp_update_pressure_def

lemmas aw_stmt_defs =
  aw_read_current_time_def aw_update_acceleration_def aw_update_plasma_velocity_def
  aw_cap_plasma_velocity_def aw_update_lorentz_factor_def aw_update_pressure_def
  aw_introduce_observers_def aw_update_time_dilation_def
  aw_update_dimension_portal_probability_def store_time_dilation_def
  store_dimension_portal_probability_def

lemmas carry_defs =
  carry_plasma_velocity_def carry_lorentz_factor_def carry_field_strength_def
  carry_temperature_def carry_pressure_def carry_quantum_tunneling_probability_def
  carry_spacetime_curvature_def carry_volume_def



lemma cp_constants_vals:
  "c cp_constants = 3 * 10 ^ 8" "damping_factor cp_constants = 1 / 10 ^ 5"
  "cap_value cp_constants = 10 ^ 24" "acceleration cp_constants = 981 / 100"
  "observer_interval cp_constants = 45" "total_time cp_constants = 9600"
  "time_steps cp_constants = 96000" "B cp_constants = 30"
  "initial_observers cp_constants = 1" "volume_per_observer cp_constants = 1"
  "observer_influence_factor cp_constants = 11 / 10"
  by (simp_all add: cp_constants_def)

lemma aw_constants_vals:
  "c aw_constants = 3 * 10 ^ 8" "damping_factor aw_constants = 1 / 10 ^ 5"
  "cap_value aw_constants = 10 ^ 35" "initial_acceleration aw_constants = 22 / 10"
  "max_acceleration aw_constants = 1381 / 100"
  "observer_interval aw_constants = 100" "total_time aw_constants = 6900"
  "time_steps aw_constants = 69000" "B aw_constants = 40"
  "initial_observers aw_constants = 1" "volume_per_observer aw_constants = 1"
  "observer_influence_factor aw_constants = 11 / 10"
  "mass_particle aw_constants = 170 / 10 ^ 29"
  by (simp_all add: aw_constants_def)

lemma cp_stmts_velocity_cases:
  "f \<in> set (cp_stmts k i) \<Longrightarrow>
     f = cp_update_plasma_velocity k \<or> (\<forall>t. plasma_velocity (f t) = plasma_velocity t)"
  by (auto simp: cp_stmts_def shared_stmt_defs cp_stmt_defs Let_def)

lemma cp_velocity_step:
  "cp_velocity_inv t \<Longrightarrow> cp_velocity_inv (cp_update_plasma_velocity cp_constants t)"
  by (auto simp: cp_velocity_inv_def cp_update_plasma_velocity_def dt_cp cp_constants_vals;
      argo)

lemma cp_stmt_velocity_inv:
  "f \<in> set (cp_stmts cp_constants i) \<Longrightarrow> cp_velocity_inv t \<Longrightarrow> cp_velocity_inv (f t)"
  using cp_stmts_velocity_cases [of f cp_constants i] cp_velocity_step [of t]
  by (auto simp: cp_velocity_inv_def)

lemma cp_handler_velocity_inv:
  "(e, h) \<in> set (cp_handlers cp_constants i) \<Longrightarrow> cp_velocity_inv t
     \<Longrightarrow> cp_velocity_inv (final_state (h t))"
  by (auto simp: cp_handlers_def cp_except_OverflowError_def exec_Cons exec_Nil
      cp_velocity_inv_def carry_defs cp_store_energy_density_cap_def)

lemma cp_loop_velocity_inv:
  "cp_velocity_inv (final_state (cp_loop_upto cp_constants flts n))"
  unfolding cp_loop_upto_def
proof (rule for_loop_invariant [where Q = cp_velocity_inv])
  show "cp_velocity_inv (cp_initial cp_constants)"
    by (simp add: cp_velocity_inv_def cp_initial_def)
next
  fix i t
  assume "cp_velocity_inv t"
  then show "cp_velocity_inv (final_state (cp_iteration cp_constants (flts i) i t))"
    unfolding cp_iteration_def
    by (intro try_except_invariant [where Q = cp_velocity_inv])
       (auto intro: cp_stmt_velocity_inv cp_handler_velocity_inv)
qed

lemma aw_stmts_velocity_cases:
  "f \<in> set (aw_stmts k i) \<Longrightarrow>
     f = aw_read_current_time k i \<or> f = aw_update_acceleration k
     \<or> f = aw_update_plasma_velocity k \<or> f = aw_cap_plasma_velocity k
     \<or> (\<forall>t. plasma_velocity (f t) = plasma_velocity t \<and> current_time (f t) = current_time t
            \<and> acceleration_var (f t) = acceleration_var t)"
  by (auto simp: aw_stmts_def shared_stmt_defs aw_stmt_defs)

lemma aw_velocity_steps:
  assumes "aw_velocity_inv t"
  shows "i < 69000 \<Longrightarrow> aw_velocity_inv (aw_read_current_time aw_constants i t)"
    and "aw_velocity_inv (aw_update_acceleration aw_constants t)"
    and "aw_velocity_inv (aw_update_plasma_velocity aw_constants t)"
    and "aw_velocity_inv (aw_cap_plasma_velocity aw_constants t)"
proof -
  show "aw_velocity_inv (aw_read_current_time aw_constants i t)" if "i < 69000"
  proof -
    have "time_array aw_constants ! i = real i / 10"
      using that by (simp add: time_array_nth length_time_array_aw dt_aw)
    moreover have "real i \<le> 69000"
      using that by simp
    ultimately show ?thesis
      using assms by (simp add: aw_velocity_inv_def aw_read_current_time_def)
  qed
  show "aw_velocity_inv (aw_update_acceleration aw_constants t)"
    using assms
    by (auto simp: aw_velocity_inv_def aw_update_acceleration_def
        increasing_acceleration_def aw_constants_vals; argo)
  show "aw_velocity_inv (aw_update_plasma_velocity aw_constants t)"
    using assms
    by (auto simp: aw_velocity_inv_def aw_update_plasma_velocity_def dt_aw aw_constants_vals;
        argo)
  show "aw_velocity_inv (aw_cap_plasma_velocity aw_constants t)"
    using assms
    by (auto simp: aw_velocity_inv_def aw_cap_plasma_velocity_def aw_constants_vals)
qed

lemma aw_stmt_velocity_inv:
  assumes "f \<in> set (aw_stmts aw_constants i)" and "i < 69000" and "aw_velocity_inv t"
  shows "aw_velocity_inv (f t)"
  using aw_stmts_velocity_cases [OF assms(1)] aw_velocity_steps [OF assms(3)] assms(2,3)
  by (auto simp: aw_velocity_inv_def)

lemma aw_handler_velocity_inv:
  "(e, h) \<in> set (aw_handlers float_inf i) \<Longrightarrow> aw_velocity_inv t
     \<Longrightarrow> aw_velocity_inv (final_state (h t))"
  by (auto simp: aw_handlers_def aw_except_OverflowError_def aw_except_ZeroDivisionError_def
      exec_Cons exec_Nil aw_velocity_inv_def carry_defs shared_stmt_defs aw_stmt_defs)

lemma aw_loop_velocity_inv:
  assumes "n \<le> 69000"
  shows "aw_velocity_inv (final_state (aw_loop_upto aw_constants float_inf flts n))"
  unfolding aw_loop_upto_def
proof (rule for_loop_invariant [where Q = aw_velocity_inv])
  show "aw_velocity_inv (aw_initial aw_constants)"
    by (simp add: aw_velocity_inv_def aw_initial_def)
next
  fix i t
  assume "i \<in> set [1..<n]" and t: "aw_velocity_inv t"
  then have i: "i < 69000" using assms by simp
  show "aw_velocity_inv (final_state (aw_iteration aw_constants float_inf (flts i) i t))"
    unfolding aw_iteration_def
    by (intro try_except_invariant [where Q = aw_velocity_inv])
       (auto intro: aw_stmt_velocity_inv [OF _ i] aw_handler_velocity_inv t)
qed

text \<open>The state after a whole body, field by field.\<close>

lemma cp_body_fields:
  "plasma_velocity (exec (cp_stmts k i) s)
     = plasma_velocity s + (acceleration k - damping_factor k * plasma_velocity s) * dt k"
  "observer_factor (exec (cp_stmts k i) s)
     = ln (1 + observer_influence_factor k * current_observers (exec (cp_stmts k i) s))"
  "field_strength (exec (cp_stmts k i) s)
     = (if field_strength s * observer_factor (exec (cp_stmts k i) s) > cap_value k
        then cap_value k else field_strength s * observer_factor (exec (cp_stmts k i) s))"
  "energy_density (exec (cp_stmts k i) s)
     = min (0.5 * (field_strength (exec (cp_stmts k i) s)) ^ 2
              * (plasma_velocity (exec (cp_stmts k i) s)) ^ 2) (cap_value k)"
  "spacetime_curvature (exec (cp_stmts k i) s)
     = 2 * energy_density (exec (cp_stmts k i) s) / (c k) ^ 4"
  "temperature (exec (cp_stmts k i) s) = temperature s + 10 ^ 5 * dt k"
  "pressure (exec (cp_stmts k i) s) = pressure s + 500 * dt k"
  by (simp_all add: cp_stmts_def exec_Cons exec_Nil shared_stmt_defs cp_stmt_defs Let_def)

lemma cp_body_arrays:
  "plasma_velocity_array (exec (cp_stmts k i) s)
     = (plasma_velocity_array s)[i := plasma_velocity (exec (cp_stmts k i) s)]"
  "lorentz_factor_array (exec (cp_stmts k i) s)
     = (lorentz_factor_array s)[i := lorentz_factor (exec (cp_stmts k i) s)]"
  "energy_density_array (exec (cp_stmts k i) s)
     = (energy_density_array s)[i := energy_density (exec (cp_stmts k i) s)]"
  "field_strength_array (exec (cp_stmts k i) s)
     = (field_strength_array s)[i := field_strength (exec (cp_stmts k i) s)]"
  "temperature_array (exec (cp_stmts k i) s)
     = (temperature_array s)[i := temperature (exec (cp_stmts k i) s)]"
  "pressure_array (exec (cp_stmts k i) s)
     = (pressure_array s)[i := pressure (exec (cp_stmts k i) s)]"
  "quantum_tunneling_probability_array (exec (cp_stmts k i) s)
     = (quantum_tunneling_probability_array s)
         [i := quantum_tunneling_probability (exec (cp_stmts k i) s)]"
  "spacetime_curvature_array (exec (cp_stmts k i) s)
     = (spacetime_curvature_array s)[i := spacetime_curvature (exec (cp_stmts k i) s)]"
  "volume_array (exec (cp_stmts k i) s) = (volume_array s)[i := volume (exec (cp_stmts k i) s)]"
  by (simp_all add: cp_stmts_def exec_Cons exec_Nil shared_stmt_defs cp_stmt_defs Let_def)

lemma aw_body_fields:
  "current_time (exec (aw_stmts k i) s) = time_array k ! i"
  "acceleration_var (exec (aw_stmts k i) s)
     = initial_acceleration k
       + (max_acceleration k - initial_acceleration k) * (time_array k ! i / total_time k)"
  "observer_factor (exec (aw_stmts k i) s)
     = ln (1 + observer_influence_factor k * current_observers (exec (aw_stmts k i) s))"
  "field_strength (exec (aw_stmts k i) s)
     = (if field_strength s * observer_factor (exec (aw_stmts k i) s) > cap_value k
        then cap_value k else field_strength s * observer_factor (exec (aw_stmts k i) s))"
  "energy_density (exec (aw_stmts k i) s)
     = min (0.5 * (field_strength (exec (aw_stmts k i) s)) ^ 2
              * (plasma_velocity (exec (aw_stmts k i) s)) ^ 2) (cap_value k)"
  "spacetime_curvature (exec (aw_stmts k i) s)
     = 2 * energy_density (exec (aw_stmts k i) s) / (c k) ^ 4"
  "temperature (exec (aw_stmts k i) s) = temperature s + 10 ^ 5 * dt k"
  "pressure (exec (aw_stmts k i) s) = (B k) ^ 2 / (2 * mu_0)"
  by (simp_all add: aw_stmts_def exec_Cons exec_Nil shared_stmt_defs aw_stmt_defs
      increasing_acceleration_def magnetic_pressure_effect_def)

lemma aw_body_arrays:
  "plasma_velocity_array (exec (aw_stmts k i) s)
     = (plasma_velocity_array s)[i := plasma_velocity (exec (aw_stmts k i) s)]"
  "lorentz_factor_array (exec (aw_stmts k i) s)
     = (lorentz_factor_array s)[i := lorentz_factor (exec (aw_stmts k i) s)]"
  "energy_density_array (exec (aw_stmts k i) s)
     = (energy_density_array s)[i := energy_density (exec (aw_stmts k i) s)]"
  "field_strength_array (exec (aw_stmts k i) s)
     = (field_strength_array s)[i := field_strength (exec (aw_stmts k i) s)]"
  "temperature_array (exec (aw_stmts k i) s)
     = (temperature_array s)[i := temperature (exec (aw_stmts k i) s)]"
  "pressure_array (exec (aw_stmts k i) s)
     = (pressure_array s)[i := pressure (exec (aw_stmts k i) s)]"
  "quantum_tunneling_probability_array (exec (aw_stmts k i) s)
     = (quantum_tunneling_probability_array s)
         [i := quantum_tunneling_probability (exec (aw_stmts k i) s)]"
  "spacetime_curvature_array (exec (aw_stmts k i) s)
     = (spacetime_curvature_array s)[i := spacetime_curvature (exec (aw_stmts k i) s)]"
  "volume_array (exec (aw_stmts k i) s) = (volume_array s)[i := volume (exec (aw_stmts k i) s)]"
  "time_dilation_array (exec (aw_stmts k i) s)
     = (time_dilation_array s)[i := time_dilation (exec (aw_stmts k i) s)]"
  "dimension_portal_probability_array (exec (aw_stmts k i) s)
     = (dimension_portal_probability_array s)
         [i := dimension_portal_probability (exec (aw_stmts k i) s)]"
  by (simp_all add: aw_stmts_def exec_Cons exec_Nil shared_stmt_defs aw_stmt_defs)

section \<open>What an iteration without exception computes\<close>

lemma length_cp_initial_arrays:
  "map length (arrays (cp_initial k)) = replicate 9 (length (time_array k))"
  by (simp add: arrays_def cp_initial_def zeros_def numeral_eq_Suc)

lemma length_aw_initial_arrays:
  "map length (aw_arrays (aw_initial k)) = replicate 11 (length (time_array k))"
  by (simp add: aw_arrays_def arrays_def aw_initial_def zeros_def numeral_eq_Suc)

text \<open>
  Claim C2. In both scripts, an iteration \<open>i\<close> that completes without an exception
  stores at index \<open>i\<close> of \<open>spacetime_curvature_array\<close> the value
  \<open>2 * energy_density / c^4\<close> with \<open>c = 3e8\<close>, where \<open>energy_density\<close> is the energy
  density that this iteration computed (the capped \<open>0.5 * field_strength^2 *
  plasma_velocity^2\<close>) and stored at index \<open>i\<close> of \<open>energy_density_array\<close>.
\<close>

theorem C2_spacetime_curvature:
  assumes "cp_iteration cp_constants None i s = Inr s'"
    and "i < length (spacetime_curvature_array s)"
    and "aw_iteration aw_constants float_inf None i t = Inr t'"
    and "i < length (spacetime_curvature_array t)"
  shows "spacetime_curvature_array s' ! i = 2 * energy_density s' / (3 * 10 ^ 8) ^ 4
    \<and> energy_density s'
        = min (0.5 * (field_strength s') ^ 2 * (plasma_velocity s') ^ 2) (cap_value cp_constants)
    \<and> energy_density_array s' = (energy_density_array s)[i := energy_density s']
    \<and> spacetime_curvature_array t' ! i = 2 * energy_density t' / (3 * 10 ^ 8) ^ 4
    \<and> energy_density t'
        = min (0.5 * (field_strength t') ^ 2 * (plasma_velocity t') ^ 2) (cap_value aw_constants)
    \<and> energy_density_array t' = (energy_density_array t)[i := energy_density t']
    \<and> c cp_constants = 3 * 10 ^ 8 \<and> c aw_constants = 3 * 10 ^ 8"
proof -
  have s': "s' = exec (cp_stmts cp_constants i) s"
    using assms(1) by (simp add: cp_iteration_None)
  have t': "t' = exec (aw_stmts aw_constants i) t"
    using assms(3) by (simp add: aw_iteration_None)
  have "spacetime_curvature_array s' ! i = 2 * energy_density s' / (3 * 10 ^ 8) ^ 4"
    unfolding s' using assms(2)
    by (simp add: cp_body_arrays(8) cp_body_fields(5) cp_constants_vals)
  moreover have "spacetime_curvature_array t' ! i = 2 * energy_density t' / (3 * 10 ^ 8) ^ 4"
    unfolding t' using assms(4)
    by (simp add: aw_body_arrays(8) aw_body_fields(6) aw_constants_vals)
  moreover have "energy_density s'
        = min (0.5 * (field_strength s') ^ 2 * (plasma_velocity s') ^ 2) (cap_value cp_constants)"
    unfolding s' by (rule cp_body_fields(4))
  moreover have "energy_density t'
        = min (0.5 * (field_strength t') ^ 2 * (plasma_velocity t') ^ 2) (cap_value aw_constants)"
    unfolding t' by (rule aw_body_fields(5))
  moreover have "energy_density_array s' = (energy_density_array s)[i := energy_density s']"
    unfolding s' by (rule cp_body_arrays(3))
  moreover have "energy_density_array t' = (energy_density_array t)[i := energy_density t']"
    unfolding t' by (rule aw_body_arrays(3))
  ultimately show ?thesis
    by (simp add: cp_constants_vals aw_constants_vals)
qed

theorem C2_spacetime_curvature_witness:
  "cp_iteration cp_constants None 1 (cp_initial cp_constants)
     = Inr (exec (cp_stmts cp_constants 1) (cp_initial cp_constants))
   \<and> 1 < length (spacetime_curvature_array (cp_initial cp_constants))
   \<and> aw_iteration aw_constants 0 None 1 (aw_initial aw_constants)
     = Inr (exec (aw_stmts aw_constants 1) (aw_initial aw_constants))
   \<and> 1 < length (spacetime_curvature_array (aw_initial aw_constants))
   \<and> spacetime_curvature_array (exec (cp_stmts cp_constants 1) (cp_initial cp_constants)) ! 1
       = 2 * energy_density (exec (cp_stmts cp_constants 1) (cp_initial cp_constants))
           / (3 * 10 ^ 8) ^ 4
   \<and> spacetime_curvature_array (exec (aw_stmts aw_constants 1) (aw_initial aw_constants)) ! 1
       = 2 * energy_density (exec (aw_stmts aw_constants 1) (aw_initial aw_constants))
           / (3 * 10 ^ 8) ^ 4"
proof -
  have c: "1 < length (spacetime_curvature_array (cp_initial cp_constants))"
    by (simp add: cp_initial_def zeros_def length_time_array_cp)
  have a: "1 < length (spacetime_curvature_array (aw_initial aw_constants))"
    by (simp add: aw_initial_def zeros_def length_time_array_aw)
  show ?thesis
    using C2_spacetime_curvature [OF cp_iteration_None c aw_iteration_None [where float_inf = 0] a] c a
    by (simp add: cp_iteration_None aw_iteration_None)
qed


text \<open>
  Claim C3. In both scripts, after an iteration that completes without an exception,
  \<open>field_strength \<le> cap_value\<close> (the product \<open>field_strength * observer_factor\<close>,
  replaced by \<open>cap_value\<close> when it exceeds it) and \<open>energy_density \<le> cap_value\<close> (the
  minimum of \<open>0.5 * field_strength^2 * plasma_velocity^2\<close> and \<open>cap_value\<close>);
  \<open>cap_value\<close> is \<open>1e24\<close> in \<^verbatim>\<open>copyandpaste.py\<close> and \<open>1e35\<close> in \<^verbatim>\<open>alien_weaponry.py\<close>.
  The iteration may start in any state whose values are numbers.
\<close>

theorem C3_capping_invariant:
  assumes "cp_iteration cp_constants None i s = Inr s'"
    and "aw_iteration aw_constants float_inf None i t = Inr t'"
  shows "field_strength s' \<le> cap_value cp_constants
    \<and> energy_density s' \<le> cap_value cp_constants
    \<and> cap_value cp_constants = 10 ^ 24
    \<and> field_strength s'
        = (if field_strength s * observer_factor s' > cap_value cp_constants
           then cap_value cp_constants else field_strength s * observer_factor s')
    \<and> energy_density s'
        = min (0.5 * (field_strength s') ^ 2 * (plasma_velocity s') ^ 2) (cap_value cp_constants)
    \<and> field_strength t' \<le> cap_value aw_constants
    \<and> energy_density t' \<le> cap_value aw_constants
    \<and> cap_value aw_constants = 10 ^ 35
    \<and> field_strength t'
        = (if field_strength t * observer_factor t' > cap_value aw_constants
           then cap_value aw_constants else field_strength t * observer_factor t')
    \<and> energy_density t'
        = min (0.5 * (field_strength t') ^ 2 * (plasma_velocity t') ^ 2) (cap_value aw_constants)"
proof -
  have s': "s' = exec (cp_stmts cp_constants i) s"
    using assms(1) by (simp add: cp_iteration_None)
  have t': "t' = exec (aw_stmts aw_constants i) t"
    using assms(2) by (simp add: aw_iteration_None)
  have fs: "field_strength s'
        = (if field_strength s * observer_factor s' > cap_value cp_constants
           then cap_value cp_constants else field_strength s * observer_factor s')"
    unfolding s' by (rule cp_body_fields(3))
  have ed: "energy_density s'
        = min (0.5 * (field_strength s') ^ 2 * (plasma_velocity s') ^ 2) (cap_value cp_constants)"
    unfolding s' by (rule cp_body_fields(4))
  have ft: "field_strength t'
        = (if field_strength t * observer_factor t' > cap_value aw_constants
           then cap_value aw_constants else field_strength t * observer_factor t')"
    unfolding t' by (rule aw_body_fields(4))
  have et: "energy_density t'
        = min (0.5 * (field_strength t') ^ 2 * (plasma_velocity t') ^ 2) (cap_value aw_constants)"
    unfolding t' by (rule aw_body_fields(5))
  have "field_strength s' \<le> cap_value cp_constants"
    by (subst fs) simp
  moreover have "energy_density s' \<le> cap_value cp_constants"
    by (subst ed) simp
  moreover have "field_strength t' \<le> cap_value aw_constants"
    by (subst ft) simp
  moreover have "energy_density t' \<le> cap_value aw_constants"
    by (subst et) simp
  moreover note fs ed ft et cp_constants_vals(3) aw_constants_vals(3)
  ultimately show ?thesis
    by blast
qed

theorem C3_capping_invariant_witness:
  "cp_iteration cp_constants None 1 (cp_initial cp_constants)
     = Inr (exec (cp_stmts cp_constants 1) (cp_initial cp_constants))
   \<and> aw_iteration aw_constants 0 None 1 (aw_initial aw_constants)
     = Inr (exec (aw_stmts aw_constants 1) (aw_initial aw_constants))
   \<and> field_strength (exec (cp_stmts cp_constants 1) (cp_initial cp_constants)) \<le> 10 ^ 24
   \<and> energy_density (exec (cp_stmts cp_constants 1) (cp_initial cp_constants)) \<le> 10 ^ 24
   \<and> field_strength (exec (aw_stmts aw_constants 1) (aw_initial aw_constants)) \<le> 10 ^ 35
   \<and> energy_density (exec (aw_stmts aw_constants 1) (aw_initial aw_constants)) \<le> 10 ^ 35"
  using C3_capping_invariant [where i = 1 and s = "cp_initial cp_constants"
      and s' = "exec (cp_stmts cp_constants 1) (cp_initial cp_constants)"
      and float_inf = 0 and t = "aw_initial aw_constants"
      and t' = "exec (aw_stmts aw_constants 1) (aw_initial aw_constants)"]
  by (simp add: cp_iteration_None aw_iteration_None cp_constants_vals(3) aw_constants_vals(3))

section \<open>The plasma velocity\<close>

lemma try_except_final_state:
  "final_state (try_except body handlers flt s) =
     (case flt of
        None \<Rightarrow> exec body s
      | Some (e, p) \<Rightarrow>
          (case map_of handlers e of
             None \<Rightarrow> exec (take p body) s
           | Some h \<Rightarrow> final_state (h (exec (take p body) s))))"
  by (simp add: try_except_def Let_def split: option.splits prod.splits)

lemma cp_handler_velocity:
  "map_of (cp_handlers k i) e = Some h \<Longrightarrow>
     plasma_velocity (final_state (h t)) = plasma_velocity t"
  by (auto simp: cp_handlers_def cp_except_OverflowError_def exec_Cons exec_Nil carry_defs
      cp_store_energy_density_cap_def split: if_splits)

lemma aw_handler_velocity:
  "map_of (aw_handlers float_inf i) e = Some h \<Longrightarrow>
     plasma_velocity (final_state (h t)) = plasma_velocity t"
  by (auto simp: aw_handlers_def aw_except_OverflowError_def aw_except_ZeroDivisionError_def
      exec_Cons exec_Nil carry_defs shared_stmt_defs aw_stmt_defs split: if_splits)

text \<open>The statements after the velocity update of \<^verbatim>\<open>copyandpaste.py\<close> leave the
  velocity as it is.\<close>

lemma cp_stmts_hd: "cp_stmts k i = cp_update_plasma_velocity k # tl (cp_stmts k i)"
  by (simp add: cp_stmts_def)

lemma cp_stmts_tl_velocity:
  "f \<in> set (tl (cp_stmts k i)) \<Longrightarrow> plasma_velocity (f t) = plasma_velocity t"
  by (auto simp: cp_stmts_def shared_stmt_defs cp_stmt_defs Let_def)

lemma cp_prefix_velocity:
  assumes "1 \<le> p"
  shows "plasma_velocity (exec (take p (cp_stmts k i)) s)
    = plasma_velocity s + (acceleration k - damping_factor k * plasma_velocity s) * dt k"
proof -
  let ?s1 = "cp_update_plasma_velocity k s"
  have "take p (cp_stmts k i) = cp_update_plasma_velocity k # take (p - 1) (tl (cp_stmts k i))"
    using assms by (subst cp_stmts_hd) (simp add: take_Cons')
  then have "exec (take p (cp_stmts k i)) s = exec (take (p - 1) (tl (cp_stmts k i))) ?s1"
    by (simp add: exec_Cons)
  moreover have "plasma_velocity (exec (take (p - 1) (tl (cp_stmts k i))) ?s1)
      = plasma_velocity ?s1"
    by (rule exec_take_invariant [where Q = "\<lambda>t. plasma_velocity t = plasma_velocity ?s1"])
       (simp_all add: cp_stmts_tl_velocity)
  ultimately show ?thesis
    by (simp add: cp_update_plasma_velocity_def)
qed

lemma cp_iteration_velocity:
  assumes "none_before 1 flt"
  shows "plasma_velocity (final_state (cp_iteration k flt i s))
    = plasma_velocity s + (acceleration k - damping_factor k * plasma_velocity s) * dt k"
proof (cases flt)
  case None
  then show ?thesis
    by (simp add: cp_iteration_None cp_body_fields(1))
next
  case (Some ep)
  obtain e p where ep: "ep = (e, p)" by (cases ep)
  with Some assms have p: "1 \<le> p"
    by (simp add: none_before_def)
  show ?thesis
    unfolding cp_iteration_def try_except_final_state Some ep
    by (simp add: cp_handler_velocity cp_prefix_velocity [OF p] split: option.splits)
qed

text \<open>
  In \<^verbatim>\<open>alien_weaponry.py\<close> the first four statements read the time, interpolate the
  acceleration, update the velocity and cap it at \<open>c\<close>; the later ones leave the
  velocity as it is.
\<close>

lemma aw_stmts_split:
  "aw_stmts k i =
     [aw_read_current_time k i, aw_update_acceleration k, aw_update_plasma_velocity k,
      aw_cap_plasma_velocity k] @ drop 4 (aw_stmts k i)"
  by (simp add: aw_stmts_def)

lemma aw_stmts_drop_velocity:
  "f \<in> set (drop 4 (aw_stmts k i)) \<Longrightarrow> plasma_velocity (f t) = plasma_velocity t"
  by (auto simp: aw_stmts_def shared_stmt_defs aw_stmt_defs)

lemma aw_prefix_velocity:
  assumes "4 \<le> p"
  shows "plasma_velocity (exec (take p (aw_stmts k i)) s)
    = plasma_velocity (aw_cap_plasma_velocity k (aw_update_plasma_velocity k
        (aw_update_acceleration k (aw_read_current_time k i s))))"
    (is "_ = plasma_velocity ?s4")
proof -
  have "take p (aw_stmts k i) =
     [aw_read_current_time k i, aw_update_acceleration k, aw_update_plasma_velocity k,
      aw_cap_plasma_velocity k] @ take (p - 4) (drop 4 (aw_stmts k i))"
    (is "_ = ?front @ _")
  proof -
    have len: "length ?front = 4"
      by simp
    have "take p (aw_stmts k i) = take p (?front @ drop 4 (aw_stmts k i))"
      by (subst aw_stmts_split) (rule refl)
    also have "\<dots> = take p ?front @ take (p - length ?front) (drop 4 (aw_stmts k i))"
      by (rule take_append)
    also have "take p ?front = ?front"
      using assms by (intro take_all) simp
    finally show ?thesis
      unfolding len .
  qed
  then have "exec (take p (aw_stmts k i)) s = exec (take (p - 4) (drop 4 (aw_stmts k i))) ?s4"
    by (simp add: exec_append exec_Cons exec_Nil)
  moreover have "plasma_velocity (exec (take (p - 4) (drop 4 (aw_stmts k i))) ?s4)
      = plasma_velocity ?s4"
    by (rule exec_take_invariant [where Q = "\<lambda>t. plasma_velocity t = plasma_velocity ?s4"])
       (simp_all add: aw_stmts_drop_velocity)
  ultimately show ?thesis
    by simp
qed

lemma aw_body_velocity:
  "plasma_velocity (exec (aw_stmts k i) s)
    = plasma_velocity (aw_cap_plasma_velocity k (aw_update_plasma_velocity k
        (aw_update_acceleration k (aw_read_current_time k i s))))"
  using aw_prefix_velocity [of "length (aw_stmts k i)" k i s]
  by (simp add: aw_stmts_def)

lemma aw_iteration_velocity:
  assumes "none_before 4 flt"
  shows "plasma_velocity (final_state (aw_iteration k float_inf flt i s))
    = plasma_velocity (aw_cap_plasma_velocity k (aw_update_plasma_velocity k
        (aw_update_acceleration k (aw_read_current_time k i s))))"
proof (cases flt)
  case None
  then show ?thesis
    by (simp add: aw_iteration_None aw_body_velocity)
next
  case (Some ep)
  obtain e p where ep: "ep = (e, p)" by (cases ep)
  with Some assms have p: "4 \<le> p"
    by (simp add: none_before_def)
  show ?thesis
    unfolding aw_iteration_def try_except_final_state Some ep
    by (simp add: aw_handler_velocity aw_prefix_velocity [OF p] split: option.splits)
qed

text \<open>Under the bounds of \<open>aw_velocity_inv\<close> the cap at \<open>c\<close> does not fire.\<close>

lemma aw_first_four_velocity:
  assumes "aw_velocity_inv s" and "i < 69000"
  shows "plasma_velocity (aw_cap_plasma_velocity aw_constants (aw_update_plasma_velocity
        aw_constants (aw_update_acceleration aw_constants (aw_read_current_time aw_constants i s))))
    = plasma_velocity s
      + (initial_acceleration aw_constants
           + (max_acceleration aw_constants - initial_acceleration aw_constants)
               * (time_array aw_constants ! i / total_time aw_constants)
         - damping_factor aw_constants * plasma_velocity s) * dt aw_constants"
proof -
  let ?s2 = "aw_update_acceleration aw_constants (aw_read_current_time aw_constants i s)"
  let ?s3 = "aw_update_plasma_velocity aw_constants ?s2"
  have "aw_velocity_inv ?s3"
    using assms by (intro aw_velocity_steps)
  then have "plasma_velocity ?s3 < c aw_constants"
    by (simp add: aw_velocity_inv_def aw_constants_vals)
  then have "plasma_velocity (aw_cap_plasma_velocity aw_constants ?s3) = plasma_velocity ?s3"
    by (simp add: aw_cap_plasma_velocity_def)
  then show ?thesis
    by (simp add: aw_update_plasma_velocity_def aw_update_acceleration_def
        aw_read_current_time_def increasing_acceleration_def)
qed


text \<open>
  Claim C1. In both scripts every iteration advances the plasma velocity by one
  forward-Euler step \<open>v + (acceleration - damping_factor * v) * dt\<close> of the velocity
  \<open>v\<close> that the previous iteration left, with \<open>dt = 0.1\<close>. In \<^verbatim>\<open>copyandpaste.py\<close> the
  update is the first statement of the body and \<open>acceleration\<close> is the constant. In
  \<^verbatim>\<open>alien_weaponry.py\<close> the acceleration is interpolated at \<open>time_array[i]\<close>; its cap at
  \<open>c\<close>, the fourth statement, never fires, since the velocity stays below
  \<open>max_acceleration / damping_factor\<close>. The additions and multiplications of the update
  raise nothing, so a fault of the iteration comes after these statements.
\<close>

theorem C1_forward_euler_step:
  assumes "none_before 1 flt" and "none_before 4 flt'"
    and "i < length (time_array aw_constants)"
  shows "plasma_velocity (final_state (cp_iteration cp_constants flt j s))
      = plasma_velocity s
        + (acceleration cp_constants - damping_factor cp_constants * plasma_velocity s)
            * dt cp_constants
    \<and> plasma_velocity (final_state (aw_iteration aw_constants float_inf flt' i
          (final_state (aw_loop_upto aw_constants float_inf flts i))))
      = plasma_velocity (final_state (aw_loop_upto aw_constants float_inf flts i))
        + (initial_acceleration aw_constants
             + (max_acceleration aw_constants - initial_acceleration aw_constants)
                 * (time_array aw_constants ! i / total_time aw_constants)
           - damping_factor aw_constants
               * plasma_velocity (final_state (aw_loop_upto aw_constants float_inf flts i)))
            * dt aw_constants
    \<and> dt cp_constants = 1 / 10 \<and> dt aw_constants = 1 / 10"
proof -
  have i: "i < 69000"
    using assms(3) by (simp add: length_time_array_aw)
  then have "aw_velocity_inv (final_state (aw_loop_upto aw_constants float_inf flts i))"
    by (intro aw_loop_velocity_inv) simp
  then show ?thesis
    using i cp_iteration_velocity [OF assms(1)] aw_iteration_velocity [OF assms(2)]
    by (simp add: aw_first_four_velocity dt_cp dt_aw)
qed

theorem C1_forward_euler_step_witness:
  "none_before 1 None \<and> none_before 4 (Some (ZeroDivisionError, 5))
   \<and> 1 < length (time_array aw_constants)
   \<and> plasma_velocity (final_state (cp_iteration cp_constants None 1 (cp_initial cp_constants)))
      = plasma_velocity (cp_initial cp_constants)
        + (acceleration cp_constants
             - damping_factor cp_constants * plasma_velocity (cp_initial cp_constants))
            * dt cp_constants
   \<and> plasma_velocity (final_state (aw_iteration aw_constants 0 (Some (ZeroDivisionError, 5)) 1
          (final_state (aw_loop_upto aw_constants 0 no_faults 1))))
      = plasma_velocity (final_state (aw_loop_upto aw_constants 0 no_faults 1))
        + (initial_acceleration aw_constants
             + (max_acceleration aw_constants - initial_acceleration aw_constants)
                 * (time_array aw_constants ! 1 / total_time aw_constants)
           - damping_factor aw_constants
               * plasma_velocity (final_state (aw_loop_upto aw_constants 0 no_faults 1)))
            * dt aw_constants"
proof -
  have h: "none_before 1 None" "none_before 4 (Some (ZeroDivisionError, 5))"
    "1 < length (time_array aw_constants)"
    by (simp_all add: none_before_def length_time_array_aw)
  from C1_forward_euler_step [OF h, of 1 "cp_initial cp_constants" 0 no_faults] h
  show ?thesis by simp
qed

text \<open>
  Claim C9. In \<^verbatim>\<open>copyandpaste.py\<close> the plasma velocity is, before and after every
  iteration and under every fault, at least 0 and below
  \<open>acceleration / damping_factor = 9.81e5\<close>, hence below \<open>c = 3e8\<close>. So when the Lorentz
  factor is computed from the updated velocity, \<open>plasma_velocity < c\<close> holds, the
  argument \<open>1 - (plasma_velocity / c)^2\<close> of the square root is positive, and the factor
  is \<open>1 / sqrt(...)\<close>, not the fallback \<open>plasma_velocity / c\<close>.
\<close>

theorem C9_velocity_below_c:
  "0 \<le> plasma_velocity (final_state (cp_loop_upto cp_constants flts n))
   \<and> plasma_velocity (final_state (cp_loop_upto cp_constants flts n))
       < acceleration cp_constants / damping_factor cp_constants
   \<and> acceleration cp_constants / damping_factor cp_constants = 981000
   \<and> 981000 < c cp_constants
   \<and> plasma_velocity (cp_update_plasma_velocity cp_constants
         (final_state (cp_loop_upto cp_constants flts n))) < c cp_constants
   \<and> 0 < 1 - (plasma_velocity (cp_update_plasma_velocity cp_constants
         (final_state (cp_loop_upto cp_constants flts n))) / c cp_constants) ^ 2
   \<and> lorentz_factor (cp_update_lorentz_factor cp_constants
         (cp_update_plasma_velocity cp_constants
           (final_state (cp_loop_upto cp_constants flts n))))
       = 1 / sqrt (1 - (plasma_velocity (cp_update_plasma_velocity cp_constants
           (final_state (cp_loop_upto cp_constants flts n))) / c cp_constants) ^ 2)"
proof -
  let ?s = "final_state (cp_loop_upto cp_constants flts n)"
  let ?s1 = "cp_update_plasma_velocity cp_constants ?s"
  have inv: "cp_velocity_inv ?s"
    by (rule cp_loop_velocity_inv)
  then have inv1: "cp_velocity_inv ?s1"
    by (rule cp_velocity_step)
  have v: "0 \<le> plasma_velocity ?s" "plasma_velocity ?s < 981000"
    using inv by (simp_all add: cp_velocity_inv_def)
  have v1: "0 \<le> plasma_velocity ?s1" "plasma_velocity ?s1 < 981000"
    using inv1 by (simp_all add: cp_velocity_inv_def)
  have ratio: "acceleration cp_constants / damping_factor cp_constants = 981000"
    by (simp add: cp_constants_vals)
  have c: "c cp_constants = 300000000"
    by (simp add: cp_constants_vals)
  have below: "plasma_velocity ?s1 < c cp_constants"
    using v1 c by simp
  have "\<bar>plasma_velocity ?s1 / c cp_constants\<bar> < 1"
    using v1 c by simp
  then have pos: "0 < 1 - (plasma_velocity ?s1 / c cp_constants) ^ 2"
    by (simp add: abs_square_less_1)
  have lf: "lorentz_factor (cp_update_lorentz_factor cp_constants ?s1)
      = 1 / sqrt (1 - (plasma_velocity ?s1 / c cp_constants) ^ 2)"
    using below by (simp add: cp_update_lorentz_factor_def)
  from v ratio c below pos lf show ?thesis
    by simp
qed


section \<open>The exception handlers\<close>

text \<open>A statement of a body writes no array but at index \<open>i\<close>.\<close>

lemma cp_stmt_lengths:
  "f \<in> set (cp_stmts k i) \<Longrightarrow> map length (arrays (f s)) = map length (arrays s)"
  by (auto simp: cp_stmts_def arrays_def shared_stmt_defs cp_stmt_defs Let_def)

lemma cp_stmt_frame:
  "f \<in> set (cp_stmts k i) \<Longrightarrow> j \<noteq> i \<Longrightarrow>
     map (\<lambda>a. a ! j) (arrays (f s)) = map (\<lambda>a. a ! j) (arrays s)"
  by (auto simp: cp_stmts_def arrays_def shared_stmt_defs cp_stmt_defs Let_def)

lemma aw_stmt_lengths:
  "f \<in> set (aw_stmts k i) \<Longrightarrow> map length (aw_arrays (f s)) = map length (aw_arrays s)"
  by (auto simp: aw_stmts_def aw_arrays_def arrays_def shared_stmt_defs aw_stmt_defs)

lemma aw_stmt_frame:
  "f \<in> set (aw_stmts k i) \<Longrightarrow> j \<noteq> i \<Longrightarrow>
     map (\<lambda>a. a ! j) (aw_arrays (f s)) = map (\<lambda>a. a ! j) (aw_arrays s)"
  by (auto simp: aw_stmts_def aw_arrays_def arrays_def shared_stmt_defs aw_stmt_defs)

lemma cp_prefix_arrays:
  "map length (arrays (exec (take p (cp_stmts k i)) s)) = map length (arrays s)"
  "j \<noteq> i \<Longrightarrow>
     map (\<lambda>a. a ! j) (arrays (exec (take p (cp_stmts k i)) s)) = map (\<lambda>a. a ! j) (arrays s)"
proof -
  show "map length (arrays (exec (take p (cp_stmts k i)) s)) = map length (arrays s)"
    by (rule exec_take_invariant
        [where Q = "\<lambda>t. map length (arrays t) = map length (arrays s)"])
       (simp_all add: cp_stmt_lengths)
  show "map (\<lambda>a. a ! j) (arrays (exec (take p (cp_stmts k i)) s)) = map (\<lambda>a. a ! j) (arrays s)"
    if "j \<noteq> i"
    by (rule exec_take_invariant
        [where Q = "\<lambda>t. map (\<lambda>a. a ! j) (arrays t) = map (\<lambda>a. a ! j) (arrays s)"])
       (simp_all add: cp_stmt_frame that)
qed

lemma aw_prefix_arrays:
  "map length (aw_arrays (exec (take p (aw_stmts k i)) s)) = map length (aw_arrays s)"
  "j \<noteq> i \<Longrightarrow>
     map (\<lambda>a. a ! j) (aw_arrays (exec (take p (aw_stmts k i)) s))
       = map (\<lambda>a. a ! j) (aw_arrays s)"
proof -
  show "map length (aw_arrays (exec (take p (aw_stmts k i)) s)) = map length (aw_arrays s)"
    by (rule exec_take_invariant
        [where Q = "\<lambda>t. map length (aw_arrays t) = map length (aw_arrays s)"])
       (simp_all add: aw_stmt_lengths)
  show "map (\<lambda>a. a ! j) (aw_arrays (exec (take p (aw_stmts k i)) s))
       = map (\<lambda>a. a ! j) (aw_arrays s)"
    if "j \<noteq> i"
    by (rule exec_take_invariant
        [where Q = "\<lambda>t. map (\<lambda>a. a ! j) (aw_arrays t) = map (\<lambda>a. a ! j) (aw_arrays s)"])
       (simp_all add: aw_stmt_frame that)
qed

text \<open>The handler of \<^verbatim>\<open>copyandpaste.py\<close>, entry by entry.\<close>

lemma cp_except_OverflowError_entries:
  assumes "1 \<le> i" and "list_all (\<lambda>a. i < length a) (arrays s)"
  shows "map (\<lambda>a. a ! i) (arrays (cp_except_OverflowError k i s))
    = (map (\<lambda>a. a ! (i - 1)) (arrays s))[2 := cap_value k]"
  using assms
  by (simp add: cp_except_OverflowError_def exec_Cons exec_Nil carry_defs
      cp_store_energy_density_cap_def arrays_def prev_entry_def)


lemma cp_iteration_OverflowError:
  "cp_iteration k (Some (OverflowError, p)) i s
     = Inr (cp_except_OverflowError k i (exec (take p (cp_stmts k i)) s))"
  by (simp add: cp_iteration_def try_except_def cp_handlers_def)

lemma aw_iteration_OverflowError:
  "aw_iteration k float_inf (Some (OverflowError, p)) i s
     = Inl (aw_except_OverflowError i (exec (take p (aw_stmts k i)) s))"
  by (simp add: aw_iteration_def try_except_def aw_handlers_def)

lemma aw_except_OverflowError_entries:
  assumes "1 \<le> i" and "i < length (plasma_velocity_array s)"
    and "i < length (lorentz_factor_array s)"
  shows "plasma_velocity_array (snd (aw_except_OverflowError i s)) ! i
      = plasma_velocity_array s ! (i - 1)"
    and "lorentz_factor_array (snd (aw_except_OverflowError i s)) ! i
      = lorentz_factor_array s ! (i - 1)"
    and "fst (aw_except_OverflowError i s) = TypeError"
  using assms
  by (simp_all add: aw_except_OverflowError_def exec_Cons exec_Nil carry_defs prev_entry_def)

text \<open>
  Claim C4, as stated, fails. In \<^verbatim>\<open>copyandpaste.py\<close> the handler of \<open>OverflowError\<close>
  does not copy the energy density forward: it stores \<open>cap_value\<close>. From the initial
  state, with the exception raised in iteration 1 by the second statement, slot 1 of
  \<open>energy_density_array\<close> holds \<open>1e24\<close> afterwards and slot 0 holds 0.
\<close>

theorem C4_counterexample:
  "energy_density_array (final_state
      (cp_iteration cp_constants (Some (OverflowError, 1)) 1 (cp_initial cp_constants))) ! 1
     = 10 ^ 24
   \<and> energy_density_array (final_state
      (cp_iteration cp_constants (Some (OverflowError, 1)) 1 (cp_initial cp_constants))) ! 0
     = 0"
  by (simp add: cp_iteration_OverflowError cp_stmts_def exec_Cons exec_Nil
      cp_except_OverflowError_def carry_defs cp_store_energy_density_cap_def
      cp_update_plasma_velocity_def cp_initial_def zeros_def length_time_array_cp
      cp_constants_vals)

text \<open>
  Claim C4, amended. When \<open>OverflowError\<close> is raised inside iteration \<open>i\<close> of
  \<^verbatim>\<open>copyandpaste.py\<close>, after any number \<open>p\<close> of statements of the body, the handler
  leaves in slot \<open>i\<close> of every result array the entry of slot \<open>i - 1\<close>, except in
  \<open>energy_density_array\<close>, where it leaves \<open>cap_value\<close>; the loop then goes on. In
  \<^verbatim>\<open>alien_weaponry.py\<close> the handler copies the entries of \<open>plasma_velocity_array\<close> and
  \<open>lorentz_factor_array\<close> forward in the same way.
\<close>

theorem C4_overflow_handler:
  assumes "1 \<le> i"
    and "list_all (\<lambda>a. i < length a) (arrays s)"
    and "list_all (\<lambda>a. i < length a) (aw_arrays t)"
  shows "cp_iteration cp_constants (Some (OverflowError, p)) i s
      = Inr (final_state (cp_iteration cp_constants (Some (OverflowError, p)) i s))
    \<and> plasma_velocity_array
          (final_state (cp_iteration cp_constants (Some (OverflowError, p)) i s)) ! i
        = plasma_velocity_array s ! (i - 1)
    \<and> lorentz_factor_array
          (final_state (cp_iteration cp_constants (Some (OverflowError, p)) i s)) ! i
        = lorentz_factor_array s ! (i - 1)
    \<and> energy_density_array
          (final_state (cp_iteration cp_constants (Some (OverflowError, p)) i s)) ! i
        = cap_value cp_constants
    \<and> field_strength_array
          (final_state (cp_iteration cp_constants (Some (OverflowError, p)) i s)) ! i
        = field_strength_array s ! (i - 1)
    \<and> temperature_array
          (final_state (cp_iteration cp_constants (Some (OverflowError, p)) i s)) ! i
        = temperature_array s ! (i - 1)
    \<and> pressure_array
          (final_state (cp_iteration cp_constants (Some (OverflowError, p)) i s)) ! i
        = pressure_array s ! (i - 1)
    \<and> quantum_tunneling_probability_array
          (final_state (cp_iteration cp_constants (Some (OverflowError, p)) i s)) ! i
        = quantum_tunneling_probability_array s ! (i - 1)
    \<and> spacetime_curvature_array
          (final_state (cp_iteration cp_constants (Some (OverflowError, p)) i s)) ! i
        = spacetime_curvature_array s ! (i - 1)
    \<and> volume_array
          (final_state (cp_iteration cp_constants (Some (OverflowError, p)) i s)) ! i
        = volume_array s ! (i - 1)
    \<and> plasma_velocity_array
          (final_state (aw_iteration aw_constants float_inf (Some (OverflowError, p')) i t)) ! i
        = plasma_velocity_array t ! (i - 1)
    \<and> lorentz_factor_array
          (final_state (aw_iteration aw_constants float_inf (Some (OverflowError, p')) i t)) ! i
        = lorentz_factor_array t ! (i - 1)"
proof -
  let ?s' = "exec (take p (cp_stmts cp_constants i)) s"
  let ?t' = "exec (take p' (aw_stmts aw_constants i)) t"
  have prev: "i - 1 \<noteq> i"
    using assms(1) by simp
  have "map length (arrays ?s') = map length (arrays s)"
    by (rule cp_prefix_arrays(1))
  with assms(2) have len: "list_all (\<lambda>a. i < length a) (arrays ?s')"
    by (simp add: arrays_def)
  have "map (\<lambda>a. a ! i) (arrays (cp_except_OverflowError cp_constants i ?s'))
      = (map (\<lambda>a. a ! (i - 1)) (arrays ?s'))[2 := cap_value cp_constants]"
    using assms(1) len by (rule cp_except_OverflowError_entries)
  also have "map (\<lambda>a. a ! (i - 1)) (arrays ?s') = map (\<lambda>a. a ! (i - 1)) (arrays s)"
    using prev by (rule cp_prefix_arrays(2))
  finally have cp: "map (\<lambda>a. a ! i) (arrays (cp_except_OverflowError cp_constants i ?s'))
      = (map (\<lambda>a. a ! (i - 1)) (arrays s))[2 := cap_value cp_constants]" .
  have "map length (aw_arrays ?t') = map length (aw_arrays t)"
    by (rule aw_prefix_arrays(1))
  with assms(3) have lt: "i < length (plasma_velocity_array ?t')"
    "i < length (lorentz_factor_array ?t')"
    by (simp_all add: aw_arrays_def arrays_def)
  have "map (\<lambda>a. a ! (i - 1)) (aw_arrays ?t') = map (\<lambda>a. a ! (i - 1)) (aw_arrays t)"
    using prev by (rule aw_prefix_arrays(2))
  then have same: "plasma_velocity_array ?t' ! (i - 1) = plasma_velocity_array t ! (i - 1)"
    "lorentz_factor_array ?t' ! (i - 1) = lorentz_factor_array t ! (i - 1)"
    by (simp_all add: aw_arrays_def arrays_def)
  have aw: "plasma_velocity_array (snd (aw_except_OverflowError i ?t')) ! i
      = plasma_velocity_array t ! (i - 1)"
    "lorentz_factor_array (snd (aw_except_OverflowError i ?t')) ! i
      = lorentz_factor_array t ! (i - 1)"
    using aw_except_OverflowError_entries(1,2) [OF assms(1) lt] same by simp_all
  have fin: "final_state (aw_iteration aw_constants float_inf (Some (OverflowError, p')) i t)
      = snd (aw_except_OverflowError i ?t')"
    by (simp add: aw_iteration_OverflowError final_state_def split: prod.splits)
  show ?thesis
    using cp aw unfolding fin
    by (simp add: cp_iteration_OverflowError arrays_def)
qed

text \<open>
  Claim C5, as stated, fails: the \<^verbatim>\<open>try\<close> statement of \<^verbatim>\<open>copyandpaste.py\<close> has one
  \<^verbatim>\<open>except\<close> clause, for \<open>OverflowError\<close>. A \<open>ZeroDivisionError\<close> raised in its body (here
  in iteration 1, by the second statement) is not caught and ends the script.
\<close>

theorem C5_counterexample:
  "map fst (cp_handlers cp_constants 1) = [OverflowError]
   \<and> cp_iteration cp_constants (Some (ZeroDivisionError, 1)) 1 (cp_initial cp_constants)
       = Inl (ZeroDivisionError, cp_update_plasma_velocity cp_constants (cp_initial cp_constants))"
  by (simp add: cp_iteration_def try_except_def cp_handlers_def cp_stmts_def exec_Cons exec_Nil)

text \<open>
  Claim C5, amended. The loop body of \<^verbatim>\<open>alien_weaponry.py\<close> is guarded by handlers for
  exactly \<open>OverflowError\<close> and \<open>ZeroDivisionError\<close>, and a \<open>ZeroDivisionError\<close> raised in
  it is handled and the loop goes on. The loop body of \<^verbatim>\<open>copyandpaste.py\<close> is guarded
  by a handler for \<open>OverflowError\<close> only: an \<open>OverflowError\<close> is handled and the loop
  goes on, a \<open>ZeroDivisionError\<close> leaves the loop uncaught. Any other exception (here
  \<open>TypeError\<close>) leaves either loop uncaught.
\<close>

theorem C5_exception_handlers:
  "map fst (aw_handlers float_inf i) = [OverflowError, ZeroDivisionError]
   \<and> map fst (cp_handlers cp_constants j) = [OverflowError]
   \<and> aw_iteration aw_constants float_inf (Some (ZeroDivisionError, p)) i t
       = Inr (aw_except_ZeroDivisionError float_inf i (exec (take p (aw_stmts aw_constants i)) t))
   \<and> aw_iteration aw_constants float_inf (Some (TypeError, p)) i t
       = Inl (TypeError, exec (take p (aw_stmts aw_constants i)) t)
   \<and> cp_iteration cp_constants (Some (OverflowError, p)) j s
       = Inr (cp_except_OverflowError cp_constants j (exec (take p (cp_stmts cp_constants j)) s))
   \<and> cp_iteration cp_constants (Some (ZeroDivisionError, p)) j s
       = Inl (ZeroDivisionError, exec (take p (cp_stmts cp_constants j)) s)
   \<and> cp_iteration cp_constants (Some (TypeError, p)) j s
       = Inl (TypeError, exec (take p (cp_stmts cp_constants j)) s)"
  by (simp add: cp_iteration_def aw_iteration_def try_except_def cp_handlers_def
      aw_handlers_def)

section \<open>Runs without faults\<close>

lemma cp_run_0: "final_state (cp_loop_upto k no_faults (Suc 0)) = cp_initial k"
  by (simp add: cp_loop_upto_no_fault)

lemma cp_run_Suc:
  "final_state (cp_loop_upto k no_faults (Suc (Suc n)))
     = exec (cp_stmts k (Suc n)) (final_state (cp_loop_upto k no_faults (Suc n)))"
  by (simp add: cp_loop_upto_no_fault)

lemma aw_run_0: "final_state (aw_loop_upto k float_inf no_faults (Suc 0)) = aw_initial k"
  by (simp add: aw_loop_upto_no_fault)

lemma aw_run_Suc:
  "final_state (aw_loop_upto k float_inf no_faults (Suc (Suc n)))
     = exec (aw_stmts k (Suc n)) (final_state (aw_loop_upto k float_inf no_faults (Suc n)))"
  by (simp add: aw_loop_upto_no_fault)

lemma cp_run_temperature:
  "temperature (final_state (cp_loop_upto k no_faults (Suc n)))
     = 10 ^ 7 + real n * (10 ^ 5 * dt k)"
proof (induction n)
  case 0
  show ?case by (simp add: cp_run_0 cp_initial_def)
next
  case (Suc n)
  then show ?case
    by (simp add: cp_run_Suc cp_body_fields(6) algebra_simps)
qed

lemma aw_run_temperature:
  "temperature (final_state (aw_loop_upto k float_inf no_faults (Suc n)))
     = 10 ^ 7 + real n * (10 ^ 5 * dt k)"
proof (induction n)
  case 0
  show ?case by (simp add: aw_run_0 aw_initial_def)
next
  case (Suc n)
  then show ?case
    by (simp add: aw_run_Suc aw_body_fields(7) algebra_simps)
qed

lemma replicate_9: "replicate 9 x = [x, x, x, x, x, x, x, x, x]"
  by (simp add: numeral_eq_Suc)

lemma replicate_11: "replicate 11 x = [x, x, x, x, x, x, x, x, x, x, x]"
  by (simp add: numeral_eq_Suc)

lemma cp_run_lengths:
  "map length (arrays (final_state (cp_loop_upto k no_faults (Suc n))))
     = replicate 9 (length (time_array k))"
proof (induction n)
  case 0
  show ?case by (simp add: cp_run_0 length_cp_initial_arrays)
next
  case (Suc n)
  have "map length (arrays (exec (cp_stmts k (Suc n))
          (final_state (cp_loop_upto k no_faults (Suc n)))))
      = map length (arrays (final_state (cp_loop_upto k no_faults (Suc n))))"
    using cp_prefix_arrays(1) [of "length (cp_stmts k (Suc n))" k "Suc n"] by simp
  with Suc show ?case
    by (simp only: cp_run_Suc)
qed

lemma aw_run_lengths:
  "map length (aw_arrays (final_state (aw_loop_upto k float_inf no_faults (Suc n))))
     = replicate 11 (length (time_array k))"
proof (induction n)
  case 0
  show ?case by (simp add: aw_run_0 length_aw_initial_arrays)
next
  case (Suc n)
  have "map length (aw_arrays (exec (aw_stmts k (Suc n))
          (final_state (aw_loop_upto k float_inf no_faults (Suc n)))))
      = map length (aw_arrays (final_state (aw_loop_upto k float_inf no_faults (Suc n))))"
    using aw_prefix_arrays(1) [of "length (aw_stmts k (Suc n))" k "Suc n"] by simp
  with Suc show ?case
    by (simp only: aw_run_Suc)
qed

lemma cp_run_temperature_array:
  assumes "i < length (time_array k)"
  shows "temperature_array (final_state (cp_loop_upto k no_faults (Suc n))) ! i
    = (if 1 \<le> i \<and> i \<le> n then 10 ^ 7 + real i * (10 ^ 5 * dt k) else 0)"
proof (induction n)
  case 0
  show ?case using assms by (simp add: cp_run_0 cp_initial_def zeros_def)
next
  case (Suc n)
  let ?s = "final_state (cp_loop_upto k no_faults (Suc n))"
  have len: "length (temperature_array ?s) = length (time_array k)"
    using cp_run_lengths [of k n] by (simp add: arrays_def replicate_9)
  have "temperature_array (final_state (cp_loop_upto k no_faults (Suc (Suc n))))
      = (temperature_array ?s)
          [Suc n := temperature (final_state (cp_loop_upto k no_faults (Suc (Suc n))))]"
    by (simp only: cp_run_Suc cp_body_arrays(5))
  then have upd: "temperature_array (final_state (cp_loop_upto k no_faults (Suc (Suc n))))
      = (temperature_array ?s)[Suc n := 10 ^ 7 + real (Suc n) * (10 ^ 5 * dt k)]"
    by (simp only: cp_run_temperature)
  show ?case
  proof (cases "i = Suc n")
    case True
    with assms len show ?thesis
      by (simp only: upd) simp
  next
    case False
    then have "(1 \<le> i \<and> i \<le> Suc n) = (1 \<le> i \<and> i \<le> n)"
      by auto
    with False Suc show ?thesis
      by (simp only: upd) simp
  qed
qed

lemma aw_run_temperature_array:
  assumes "i < length (time_array k)"
  shows "temperature_array (final_state (aw_loop_upto k float_inf no_faults (Suc n))) ! i
    = (if 1 \<le> i \<and> i \<le> n then 10 ^ 7 + real i * (10 ^ 5 * dt k) else 0)"
proof (induction n)
  case 0
  show ?case using assms by (simp add: aw_run_0 aw_initial_def zeros_def)
next
  case (Suc n)
  let ?s = "final_state (aw_loop_upto k float_inf no_faults (Suc n))"
  have len: "length (temperature_array ?s) = length (time_array k)"
    using aw_run_lengths [of k float_inf n] by (simp add: aw_arrays_def arrays_def replicate_11)
  have "temperature_array (final_state (aw_loop_upto k float_inf no_faults (Suc (Suc n))))
      = (temperature_array ?s)
          [Suc n := temperature (final_state (aw_loop_upto k float_inf no_faults (Suc (Suc n))))]"
    by (simp only: aw_run_Suc aw_body_arrays(5))
  then have upd: "temperature_array (final_state (aw_loop_upto k float_inf no_faults (Suc (Suc n))))
      = (temperature_array ?s)[Suc n := 10 ^ 7 + real (Suc n) * (10 ^ 5 * dt k)]"
    by (simp only: aw_run_temperature)
  show ?case
  proof (cases "i = Suc n")
    case True
    with assms len show ?thesis
      by (simp only: upd) simp
  next
    case False
    then have "(1 \<le> i \<and> i \<le> Suc n) = (1 \<le> i \<and> i \<le> n)"
      by auto
    with False Suc show ?thesis
      by (simp only: upd) simp
  qed
qed

section \<open>The overflow handler after a first iteration\<close>

text \<open>
  The instance: iteration 2 after a first iteration without exception, the exception
  raised where the energy density is computed. Before the handler runs, slot 2 of every
  array holds 0; the handler leaves there what iteration 1 stored in slot 1, and the cap
  in \<open>energy_density_array\<close>.
\<close>

theorem C4_overflow_handler_witness:
  "(1::nat) \<le> 2
   \<and> list_all (\<lambda>a. 2 < length a)
        (arrays (final_state (cp_loop_upto cp_constants no_faults (Suc 1))))
   \<and> list_all (\<lambda>a. 2 < length a)
        (aw_arrays (final_state (aw_loop_upto aw_constants 0 no_faults (Suc 1))))
   \<and> temperature_array (final_state (cp_loop_upto cp_constants no_faults (Suc 1))) ! 2 = 0
   \<and> temperature_array (final_state (cp_iteration cp_constants (Some (OverflowError, 6)) 2
        (final_state (cp_loop_upto cp_constants no_faults (Suc 1))))) ! 2 = 10010000
   \<and> pressure_array (final_state (cp_loop_upto cp_constants no_faults (Suc 1))) ! 2 = 0
   \<and> pressure_array (final_state (cp_iteration cp_constants (Some (OverflowError, 6)) 2
        (final_state (cp_loop_upto cp_constants no_faults (Suc 1))))) ! 2 = 100050
   \<and> energy_density_array (final_state (cp_iteration cp_constants (Some (OverflowError, 6)) 2
        (final_state (cp_loop_upto cp_constants no_faults (Suc 1))))) ! 2 = 10 ^ 24
   \<and> plasma_velocity_array
        (final_state (aw_loop_upto aw_constants 0 no_faults (Suc 1))) ! 2 = 0
   \<and> plasma_velocity_array (final_state (aw_iteration aw_constants 0
        (Some (OverflowError, 11)) 2
        (final_state (aw_loop_upto aw_constants 0 no_faults (Suc 1))))) ! 2
       = 15181161 / 69000000"
proof -
  let ?s = "final_state (cp_loop_upto cp_constants no_faults (Suc 1))"
  let ?t = "final_state (aw_loop_upto aw_constants 0 no_faults (Suc 1))"
  have h: "(1::nat) \<le> 2" "list_all (\<lambda>a. 2 < length a) (arrays ?s)"
    "list_all (\<lambda>a. 2 < length a) (aw_arrays ?t)"
    using cp_run_lengths [of cp_constants 1] aw_run_lengths [of aw_constants 0 1]
    by (simp_all add: arrays_def aw_arrays_def replicate_9 replicate_11
        length_time_array_cp length_time_array_aw)
  have temp: "temperature_array ?s ! 1 = 10010000" "temperature_array ?s ! 2 = 0"
    using cp_run_temperature_array [of 1 cp_constants 1]
      cp_run_temperature_array [of 2 cp_constants 1]
    by (simp_all add: length_time_array_cp dt_cp)
  have s: "?s = exec (cp_stmts cp_constants 1) (cp_initial cp_constants)"
    using cp_run_Suc [of cp_constants 0] by (simp add: cp_run_0)
  have pres: "pressure_array ?s ! 1 = 100050" "pressure_array ?s ! 2 = 0"
    unfolding s
    by (simp_all add: cp_body_arrays(6) cp_body_fields(7) cp_initial_def zeros_def
        length_time_array_cp dt_cp)
  have t: "?t = exec (aw_stmts aw_constants 1) (aw_initial aw_constants)"
    using aw_run_Suc [of aw_constants 0 0] by (simp add: aw_run_0)
  have "time_array aw_constants ! 1 = 1 / 10"
    using time_array_nth [of 1 aw_constants] by (simp add: length_time_array_aw dt_aw)
  then have vel: "plasma_velocity_array ?t ! 1 = 15181161 / 69000000"
    "plasma_velocity_array ?t ! 2 = 0"
    unfolding t
    by (simp_all add: aw_body_arrays(1) aw_body_velocity aw_cap_plasma_velocity_def
        aw_update_plasma_velocity_def aw_update_acceleration_def aw_read_current_time_def
        increasing_acceleration_def aw_initial_def zeros_def length_time_array_aw dt_aw
        aw_constants_vals)
  from C4_overflow_handler [OF h, of 6 0 11] h temp pres vel show ?thesis
    by (simp add: cp_constants_vals)
qed

section \<open>The temperature\<close>

lemma cp_final_temperature_array:
  assumes "j < 96000"
  shows "temperature_array (final_state (cp_simulation cp_constants no_faults)) ! j
    = (if 1 \<le> j then 10 ^ 7 + real j * 10 ^ 4 else 0)"
proof -
  have "length (time_array cp_constants) = Suc 95999"
    by (simp add: length_time_array_cp)
  then have "cp_simulation cp_constants no_faults = cp_loop_upto cp_constants no_faults (Suc 95999)"
    by (simp only: cp_simulation_def)
  then show ?thesis
    using assms cp_run_temperature_array [of j cp_constants 95999]
    by (simp add: length_time_array_cp dt_cp)
qed

lemma aw_final_temperature_array:
  assumes "j < 69000"
  shows "temperature_array (final_state (aw_simulation aw_constants float_inf no_faults)) ! j
    = (if 1 \<le> j then 10 ^ 7 + real j * 10 ^ 4 else 0)"
proof -
  have "length (time_array aw_constants) = Suc 68999"
    by (simp add: length_time_array_aw)
  then have "aw_simulation aw_constants float_inf no_faults
      = aw_loop_upto aw_constants float_inf no_faults (Suc 68999)"
    by (simp only: aw_simulation_def)
  then show ?thesis
    using assms aw_run_temperature_array [of j aw_constants float_inf 68999]
    by (simp add: length_time_array_aw dt_aw)
qed

text \<open>
  Claim C10. In both scripts the temperature after \<open>n\<close> iterations without exception
  is \<open>1e7 + n * 1e5 * dt\<close>, that is \<open>1e7 + n * 1e4\<close> with \<open>dt = 0.1\<close>; iteration \<open>i\<close> stores
  \<open>1e7 + i * 1e4\<close> at index \<open>i\<close> of \<open>temperature_array\<close>, and at the end of the loop the
  stored values are strictly increasing in the index (index 0, which the loop does not
  write, holds 0).
\<close>

theorem C10_temperature_closed_form:
  assumes "n < length (time_array cp_constants)" and "1 \<le> i" and "i \<le> n"
    and "j < j'" and "j' < length (time_array cp_constants)"
    and "m < length (time_array aw_constants)" and "1 \<le> l" and "l \<le> m"
    and "q < q'" and "q' < length (time_array aw_constants)"
  shows "temperature (final_state (cp_loop_upto cp_constants no_faults (Suc n)))
      = 10 ^ 7 + real n * 10 ^ 5 * dt cp_constants
    \<and> 10 ^ 5 * dt cp_constants = 10 ^ 4
    \<and> temperature_array (final_state (cp_loop_upto cp_constants no_faults (Suc n))) ! i
      = 10 ^ 7 + real i * 10 ^ 4
    \<and> temperature_array (final_state (cp_simulation cp_constants no_faults)) ! j
      < temperature_array (final_state (cp_simulation cp_constants no_faults)) ! j'
    \<and> temperature (final_state (aw_loop_upto aw_constants float_inf no_faults (Suc m)))
      = 10 ^ 7 + real m * 10 ^ 5 * dt aw_constants
    \<and> 10 ^ 5 * dt aw_constants = 10 ^ 4
    \<and> temperature_array (final_state (aw_loop_upto aw_constants float_inf no_faults (Suc m))) ! l
      = 10 ^ 7 + real l * 10 ^ 4
    \<and> temperature_array (final_state (aw_simulation aw_constants float_inf no_faults)) ! q
      < temperature_array (final_state (aw_simulation aw_constants float_inf no_faults)) ! q'"
proof -
  have c1: "temperature (final_state (cp_loop_upto cp_constants no_faults (Suc n)))
      = 10 ^ 7 + real n * 10 ^ 5 * dt cp_constants"
    by (simp add: cp_run_temperature)
  have a1: "temperature (final_state (aw_loop_upto aw_constants float_inf no_faults (Suc m)))
      = 10 ^ 7 + real m * 10 ^ 5 * dt aw_constants"
    by (simp add: aw_run_temperature)
  have "i < length (time_array cp_constants)"
    using assms(1,3) by simp
  then have c2: "temperature_array (final_state (cp_loop_upto cp_constants no_faults (Suc n))) ! i
      = 10 ^ 7 + real i * 10 ^ 4"
    using assms(2,3) by (simp add: cp_run_temperature_array dt_cp)
  have "l < length (time_array aw_constants)"
    using assms(6,8) by simp
  then have a2: "temperature_array
        (final_state (aw_loop_upto aw_constants float_inf no_faults (Suc m))) ! l
      = 10 ^ 7 + real l * 10 ^ 4"
    using assms(7,8) by (simp add: aw_run_temperature_array dt_aw)
  have j: "j < 96000" "j' < 96000" "1 \<le> j'"
    using assms(4,5) by (simp_all add: length_time_array_cp)
  have c3: "temperature_array (final_state (cp_simulation cp_constants no_faults)) ! j
      < temperature_array (final_state (cp_simulation cp_constants no_faults)) ! j'"
    using j assms(4) by (simp add: cp_final_temperature_array add_pos_nonneg)
  have q: "q < 69000" "q' < 69000" "1 \<le> q'"
    using assms(9,10) by (simp_all add: length_time_array_aw)
  have a3: "temperature_array (final_state (aw_simulation aw_constants float_inf no_faults)) ! q
      < temperature_array (final_state (aw_simulation aw_constants float_inf no_faults)) ! q'"
    using q assms(9) by (simp add: aw_final_temperature_array add_pos_nonneg)
  from c1 c2 c3 a1 a2 a3 show ?thesis
    by (simp add: dt_cp dt_aw)
qed

theorem C10_temperature_closed_form_witness:
  "2 < length (time_array cp_constants) \<and> (1::nat) \<le> 1 \<and> (1::nat) \<le> 2
   \<and> (0::nat) < 1 \<and> 1 < length (time_array cp_constants)
   \<and> 2 < length (time_array aw_constants) \<and> (1::nat) \<le> 2 \<and> (2::nat) \<le> 2
   \<and> (1::nat) < 2 \<and> 2 < length (time_array aw_constants)
   \<and> temperature (final_state (cp_loop_upto cp_constants no_faults (Suc 2)))
      = 10 ^ 7 + real 2 * 10 ^ 5 * dt cp_constants
   \<and> temperature_array (final_state (cp_loop_upto cp_constants no_faults (Suc 2))) ! 1
      = 10 ^ 7 + real 1 * 10 ^ 4
   \<and> temperature_array (final_state (cp_simulation cp_constants no_faults)) ! 0
      < temperature_array (final_state (cp_simulation cp_constants no_faults)) ! 1
   \<and> temperature_array (final_state (aw_loop_upto aw_constants 0 no_faults (Suc 2))) ! 2
      = 10 ^ 7 + real 2 * 10 ^ 4
   \<and> temperature_array (final_state (aw_simulation aw_constants 0 no_faults)) ! 1
      < temperature_array (final_state (aw_simulation aw_constants 0 no_faults)) ! 2"
proof -
  have h: "2 < length (time_array cp_constants)" "(1::nat) \<le> 1" "(1::nat) \<le> 2"
    "(0::nat) < 1" "1 < length (time_array cp_constants)"
    "2 < length (time_array aw_constants)" "(1::nat) \<le> 2" "(2::nat) \<le> 2"
    "(1::nat) < 2" "2 < length (time_array aw_constants)"
    by (simp_all add: length_time_array_cp length_time_array_aw)
  from C10_temperature_closed_form [OF h, of 0] h show ?thesis
    by simp
qed


section \<open>The two loops with equal constants\<close>

lemma aw_with_constants_of_vals:
  "c (aw_with_constants_of k) = c k" "B (aw_with_constants_of k) = B k"
  "damping_factor (aw_with_constants_of k) = damping_factor k"
  "cap_value (aw_with_constants_of k) = cap_value k"
  "observer_influence_factor (aw_with_constants_of k) = observer_influence_factor k"
  "observer_interval (aw_with_constants_of k) = observer_interval k"
  "initial_observers (aw_with_constants_of k) = initial_observers k"
  "volume_per_observer (aw_with_constants_of k) = volume_per_observer k"
  "total_time (aw_with_constants_of k) = total_time k"
  "time_steps (aw_with_constants_of k) = time_steps k"
  "initial_acceleration (aw_with_constants_of k) = acceleration k"
  "max_acceleration (aw_with_constants_of k) = acceleration k"
  "mass_particle (aw_with_constants_of k) = mass_particle k"
  "num_particles (aw_with_constants_of k) = num_particles k"
  by (simp_all add: aw_with_constants_of_def)

lemma aw_with_constants_of_time:
  "dt (aw_with_constants_of k) = dt k" "time_array (aw_with_constants_of k) = time_array k"
  by (simp_all add: dt_def time_array_def aw_with_constants_of_vals)

lemma cp_body_lorentz:
  "lorentz_factor (exec (cp_stmts k i) s)
     = (if plasma_velocity (exec (cp_stmts k i) s) < c k
        then 1 / sqrt (1 - (plasma_velocity (exec (cp_stmts k i) s) / c k) ^ 2)
        else plasma_velocity (exec (cp_stmts k i) s) / c k)"
  by (simp add: cp_stmts_def exec_Cons exec_Nil shared_stmt_defs cp_stmt_defs Let_def)

lemma aw_body_lorentz:
  "lorentz_factor (exec (aw_stmts k i) s)
     = 1 / sqrt (1 - (plasma_velocity (exec (aw_stmts k i) s) / c k) ^ 2)"
  by (simp add: aw_stmts_def exec_Cons exec_Nil shared_stmt_defs aw_stmt_defs)

text \<open>One Euler step keeps the velocity between 0 and the terminal value.\<close>

lemma euler_step_bounds:
  fixes v a d h :: real
  assumes "0 \<le> v" and "v \<le> a / d" and "0 \<le> a" and "0 < d" and "0 < h" and "d * h \<le> 1"
  shows "0 \<le> v + (a - d * v) * h" and "v + (a - d * v) * h \<le> a / d"
proof -
  have eq: "v + (a - d * v) * h = v * (1 - d * h) + a * h"
    by (simp add: algebra_simps)
  have "0 \<le> v * (1 - d * h)"
    using assms(1,6) by simp
  moreover have "0 \<le> a * h"
    using assms(3,5) by simp
  ultimately show "0 \<le> v + (a - d * v) * h"
    unfolding eq by simp
  have "v * (1 - d * h) \<le> (a / d) * (1 - d * h)"
    using assms(2,6) by (intro mult_right_mono) simp_all
  also have "(a / d) * (1 - d * h) = a / d - a * h"
    using assms(4) by (simp add: algebra_simps)
  finally show "v + (a - d * v) * h \<le> a / d"
    unfolding eq by simp
qed


lemma cp_body_frame:
  "j \<noteq> i \<Longrightarrow>
     map (\<lambda>a. a ! j) (arrays (exec (cp_stmts k i) s)) = map (\<lambda>a. a ! j) (arrays s)"
  using cp_prefix_arrays(2) [of j i "length (cp_stmts k i)" k s] by simp

lemma aw_body_frame:
  "j \<noteq> i \<Longrightarrow>
     map (\<lambda>a. a ! j) (aw_arrays (exec (aw_stmts k i) s)) = map (\<lambda>a. a ! j) (aw_arrays s)"
  using aw_prefix_arrays(2) [of j i "length (aw_stmts k i)" k s] by simp

text \<open>What iteration \<open>i\<close> has stored at index \<open>i\<close>, the later iterations leave there.\<close>

lemma cp_run_entries_stable:
  "i \<le> n \<Longrightarrow>
     map (\<lambda>a. a ! i) (arrays (final_state (cp_loop_upto k no_faults (Suc n))))
       = map (\<lambda>a. a ! i) (arrays (final_state (cp_loop_upto k no_faults (Suc i))))"
proof (induction n)
  case 0
  then show ?case by simp
next
  case (Suc n)
  show ?case
  proof (cases "i = Suc n")
    case True
    then show ?thesis by simp
  next
    case False
    with Suc.prems have "i \<le> n" by simp
    then have "map (\<lambda>a. a ! i) (arrays (final_state (cp_loop_upto k no_faults (Suc n))))
        = map (\<lambda>a. a ! i) (arrays (final_state (cp_loop_upto k no_faults (Suc i))))"
      by (rule Suc.IH)
    moreover have "map (\<lambda>a. a ! i) (arrays (exec (cp_stmts k (Suc n))
          (final_state (cp_loop_upto k no_faults (Suc n)))))
        = map (\<lambda>a. a ! i) (arrays (final_state (cp_loop_upto k no_faults (Suc n))))"
      using False by (rule cp_body_frame)
    ultimately show ?thesis
      by (simp only: cp_run_Suc [of k n])
  qed
qed

lemma aw_run_entries_stable:
  "i \<le> n \<Longrightarrow>
     map (\<lambda>a. a ! i) (aw_arrays (final_state (aw_loop_upto k float_inf no_faults (Suc n))))
       = map (\<lambda>a. a ! i) (aw_arrays (final_state (aw_loop_upto k float_inf no_faults (Suc i))))"
proof (induction n)
  case 0
  then show ?case by simp
next
  case (Suc n)
  show ?case
  proof (cases "i = Suc n")
    case True
    then show ?thesis by simp
  next
    case False
    with Suc.prems have "i \<le> n" by simp
    then have "map (\<lambda>a. a ! i) (aw_arrays (final_state (aw_loop_upto k float_inf no_faults (Suc n))))
        = map (\<lambda>a. a ! i) (aw_arrays (final_state (aw_loop_upto k float_inf no_faults (Suc i))))"
      by (rule Suc.IH)
    moreover have "map (\<lambda>a. a ! i) (aw_arrays (exec (aw_stmts k (Suc n))
          (final_state (aw_loop_upto k float_inf no_faults (Suc n)))))
        = map (\<lambda>a. a ! i) (aw_arrays (final_state (aw_loop_upto k float_inf no_faults (Suc n))))"
      using False by (rule aw_body_frame)
    ultimately show ?thesis
      by (simp only: aw_run_Suc [of k float_inf n])
  qed
qed

text \<open>
  Claim C6, as stated, fails. With the constants of \<^verbatim>\<open>alien_weaponry.py\<close> set to the
  values of \<^verbatim>\<open>copyandpaste.py\<close>, the runs without faults differ already at step 1 of
  \<open>pressure_array\<close>: \<^verbatim>\<open>copyandpaste.py\<close> adds \<open>500 * dt\<close> to the pressure,
  \<^verbatim>\<open>alien_weaponry.py\<close> sets it to \<open>B^2 / (2 * mu_0)\<close>.
\<close>

theorem C6_counterexample:
  "pressure_array (final_state (cp_simulation cp_constants no_faults)) ! 1 = 100050
   \<and> pressure_array (final_state
        (aw_simulation (aw_with_constants_of cp_constants) 0 no_faults)) ! 1
       = 900 / (2 * mu_0)
   \<and> 900 / (2 * mu_0) \<noteq> 100050"
proof -
  have len: "length (time_array cp_constants) = Suc 95999"
    by (simp add: length_time_array_cp)
  have "map (\<lambda>a. a ! 1) (arrays (final_state (cp_loop_upto cp_constants no_faults (Suc 95999))))
      = map (\<lambda>a. a ! 1) (arrays (final_state (cp_loop_upto cp_constants no_faults (Suc 1))))"
    by (rule cp_run_entries_stable) simp
  then have "pressure_array (final_state (cp_simulation cp_constants no_faults)) ! 1
      = pressure_array (final_state (cp_loop_upto cp_constants no_faults (Suc (Suc 0)))) ! 1"
    by (simp add: cp_simulation_def len arrays_def)
  also have "\<dots> = 100050"
    by (simp add: cp_run_Suc cp_run_0 cp_body_arrays(6) cp_body_fields(7) cp_initial_def
        zeros_def length_time_array_cp dt_cp)
  finally have cp: "pressure_array (final_state (cp_simulation cp_constants no_faults)) ! 1
      = 100050" .
  let ?k = "aw_with_constants_of cp_constants"
  have lena: "length (time_array ?k) = Suc 95999"
    by (simp add: aw_with_constants_of_time length_time_array_cp)
  have "map (\<lambda>a. a ! 1) (aw_arrays (final_state (aw_loop_upto ?k 0 no_faults (Suc 95999))))
      = map (\<lambda>a. a ! 1) (aw_arrays (final_state (aw_loop_upto ?k 0 no_faults (Suc 1))))"
    by (rule aw_run_entries_stable) simp
  then have "pressure_array (final_state (aw_simulation ?k 0 no_faults)) ! 1
      = pressure_array (final_state (aw_loop_upto ?k 0 no_faults (Suc (Suc 0)))) ! 1"
    by (simp add: aw_simulation_def lena aw_arrays_def arrays_def)
  also have "\<dots> = 900 / (2 * mu_0)"
    by (simp add: aw_run_Suc aw_run_0 aw_body_arrays(6) aw_body_fields(8) aw_initial_def
        zeros_def aw_with_constants_of_time length_time_array_cp aw_with_constants_of_vals
        cp_constants_vals)
  finally have aw: "pressure_array (final_state (aw_simulation ?k 0 no_faults)) ! 1
      = 900 / (2 * mu_0)" .
  have "mu_0 < 1 / 1000"
    using pi_less_4 by (simp add: mu_0_def)
  moreover have "0 < mu_0"
    by (simp add: mu_0_def)
  ultimately have "900 / (2 * mu_0) \<noteq> 100050"
    by (simp add: field_simps)
  with cp aw show ?thesis
    by simp
qed


lemma cp_loop_upto_0: "final_state (cp_loop_upto k no_faults 0) = cp_initial k"
  by (simp add: cp_loop_upto_no_fault)

lemma aw_loop_upto_0: "final_state (aw_loop_upto k float_inf no_faults 0) = aw_initial k"
  by (simp add: aw_loop_upto_no_fault)

text \<open>
  With equal constants the runs without faults agree, iteration by iteration, on the
  velocity, the temperature and the arrays of velocity, Lorentz factor and temperature,
  provided the velocity stays below \<open>c\<close>.
\<close>

lemma equal_constants_run:
  assumes "0 \<le> acceleration k" and "0 < damping_factor k" and "0 < dt k"
    and "damping_factor k * dt k \<le> 1" and "acceleration k < damping_factor k * c k"
  shows "plasma_velocity
        (final_state (aw_loop_upto (aw_with_constants_of k) float_inf no_faults (Suc n)))
      = plasma_velocity (final_state (cp_loop_upto k no_faults (Suc n)))
    \<and> 0 \<le> plasma_velocity (final_state (cp_loop_upto k no_faults (Suc n)))
    \<and> plasma_velocity (final_state (cp_loop_upto k no_faults (Suc n)))
        \<le> acceleration k / damping_factor k
    \<and> temperature
        (final_state (aw_loop_upto (aw_with_constants_of k) float_inf no_faults (Suc n)))
      = temperature (final_state (cp_loop_upto k no_faults (Suc n)))
    \<and> plasma_velocity_array
        (final_state (aw_loop_upto (aw_with_constants_of k) float_inf no_faults (Suc n)))
      = plasma_velocity_array (final_state (cp_loop_upto k no_faults (Suc n)))
    \<and> lorentz_factor_array
        (final_state (aw_loop_upto (aw_with_constants_of k) float_inf no_faults (Suc n)))
      = lorentz_factor_array (final_state (cp_loop_upto k no_faults (Suc n)))
    \<and> temperature_array
        (final_state (aw_loop_upto (aw_with_constants_of k) float_inf no_faults (Suc n)))
      = temperature_array (final_state (cp_loop_upto k no_faults (Suc n)))"
proof (induction n)
  case 0
  show ?case
    using assms(1,2)
    by (simp add: cp_run_0 aw_run_0 cp_initial_def aw_initial_def aw_with_constants_of_time)
next
  case (Suc n)
  let ?ka = "aw_with_constants_of k"
  let ?s = "final_state (cp_loop_upto k no_faults (Suc n))"
  let ?t = "final_state (aw_loop_upto ?ka float_inf no_faults (Suc n))"
  let ?s' = "exec (cp_stmts k (Suc n)) ?s"
  let ?t' = "exec (aw_stmts ?ka (Suc n)) ?t"
  let ?v = "plasma_velocity ?s"
  let ?x = "?v + (acceleration k - damping_factor k * ?v) * dt k"
  have same: "plasma_velocity ?t = ?v" "temperature ?t = temperature ?s"
    "plasma_velocity_array ?t = plasma_velocity_array ?s"
    "lorentz_factor_array ?t = lorentz_factor_array ?s"
    "temperature_array ?t = temperature_array ?s"
    and v: "0 \<le> ?v" "?v \<le> acceleration k / damping_factor k"
    using Suc by simp_all
  have x: "0 \<le> ?x" "?x \<le> acceleration k / damping_factor k"
    using euler_step_bounds [OF v assms(1,2,3,4)] by simp_all
  have "acceleration k / damping_factor k < c k"
    using assms(2,5) by (simp add: field_simps)
  with x(2) have below: "?x < c k"
    by simp
  have vs: "plasma_velocity ?s' = ?x"
    by (rule cp_body_fields(1))
  have vt: "plasma_velocity ?t' = ?x"
    using below
    by (simp add: aw_body_velocity aw_cap_plasma_velocity_def aw_update_plasma_velocity_def
        aw_update_acceleration_def aw_read_current_time_def increasing_acceleration_def
        aw_with_constants_of_vals aw_with_constants_of_time same(1))
  have ls: "lorentz_factor ?s' = 1 / sqrt (1 - (?x / c k) ^ 2)"
    using below by (simp add: cp_body_lorentz vs)
  have lt: "lorentz_factor ?t' = 1 / sqrt (1 - (?x / c k) ^ 2)"
    by (simp add: aw_body_lorentz vt aw_with_constants_of_vals)
  have temp: "temperature ?t' = temperature ?s'"
    by (simp add: cp_body_fields(6) aw_body_fields(7) aw_with_constants_of_time same(2))
  have "plasma_velocity_array ?t' = plasma_velocity_array ?s'"
    by (simp only: cp_body_arrays(1) aw_body_arrays(1) vs vt same(3))
  moreover have "lorentz_factor_array ?t' = lorentz_factor_array ?s'"
    by (simp only: cp_body_arrays(2) aw_body_arrays(2) ls lt same(4))
  moreover have "temperature_array ?t' = temperature_array ?s'"
    by (simp only: cp_body_arrays(5) aw_body_arrays(5) temp same(5))
  ultimately show ?case
    using vs vt x temp by (simp only: cp_run_Suc aw_run_Suc)
qed


text \<open>
  Claim C6, amended. The two loops are near-duplicates, but not the same sequence of
  operations (the counterexample above: the pressure). With the constants of
  \<^verbatim>\<open>alien_weaponry.py\<close> set to the values of \<^verbatim>\<open>copyandpaste.py\<close>, both accelerations
  to its \<open>acceleration\<close>, and for constants that keep the velocity below \<open>c\<close>
  (\<open>0 \<le> acceleration < damping_factor * c\<close>, \<open>0 < dt\<close>, \<open>damping_factor * dt \<le> 1\<close>,
  \<open>0 < observer_interval\<close>), the runs without exception yield the same
  \<open>plasma_velocity_array\<close>, \<open>lorentz_factor_array\<close> and \<open>temperature_array\<close>, after every
  number \<open>n\<close> of steps and at the end of the loop.
\<close>

theorem C6_equal_constants:
  assumes "0 \<le> acceleration k" and "0 < damping_factor k" and "0 < dt k"
    and "damping_factor k * dt k \<le> 1" and "acceleration k < damping_factor k * c k"
    and "0 < observer_interval k"
  shows "plasma_velocity_array
        (final_state (aw_loop_upto (aw_with_constants_of k) float_inf no_faults n))
      = plasma_velocity_array (final_state (cp_loop_upto k no_faults n))
    \<and> lorentz_factor_array
        (final_state (aw_loop_upto (aw_with_constants_of k) float_inf no_faults n))
      = lorentz_factor_array (final_state (cp_loop_upto k no_faults n))
    \<and> temperature_array
        (final_state (aw_loop_upto (aw_with_constants_of k) float_inf no_faults n))
      = temperature_array (final_state (cp_loop_upto k no_faults n))
    \<and> plasma_velocity_array
        (final_state (aw_simulation (aw_with_constants_of k) float_inf no_faults))
      = plasma_velocity_array (final_state (cp_simulation k no_faults))
    \<and> lorentz_factor_array
        (final_state (aw_simulation (aw_with_constants_of k) float_inf no_faults))
      = lorentz_factor_array (final_state (cp_simulation k no_faults))
    \<and> temperature_array
        (final_state (aw_simulation (aw_with_constants_of k) float_inf no_faults))
      = temperature_array (final_state (cp_simulation k no_faults))"
proof -
  have upto: "plasma_velocity_array
        (final_state (aw_loop_upto (aw_with_constants_of k) float_inf no_faults m))
      = plasma_velocity_array (final_state (cp_loop_upto k no_faults m))
    \<and> lorentz_factor_array
        (final_state (aw_loop_upto (aw_with_constants_of k) float_inf no_faults m))
      = lorentz_factor_array (final_state (cp_loop_upto k no_faults m))
    \<and> temperature_array
        (final_state (aw_loop_upto (aw_with_constants_of k) float_inf no_faults m))
      = temperature_array (final_state (cp_loop_upto k no_faults m))" for m
  proof (cases m)
    case 0
    then show ?thesis
      by (simp add: cp_loop_upto_0 aw_loop_upto_0 cp_initial_def aw_initial_def
          aw_with_constants_of_time)
  next
    case (Suc m')
    with equal_constants_run [OF assms(1-5), of float_inf m'] show ?thesis
      by simp
  qed
  from upto [of n] upto [of "length (time_array k)"] show ?thesis
    by (simp add: aw_simulation_def cp_simulation_def aw_with_constants_of_time)
qed

theorem C6_equal_constants_witness:
  "0 \<le> acceleration cp_constants \<and> 0 < damping_factor cp_constants \<and> 0 < dt cp_constants
   \<and> damping_factor cp_constants * dt cp_constants \<le> 1
   \<and> acceleration cp_constants < damping_factor cp_constants * c cp_constants
   \<and> 0 < observer_interval cp_constants
   \<and> plasma_velocity_array
        (final_state (aw_simulation (aw_with_constants_of cp_constants) 0 no_faults))
      = plasma_velocity_array (final_state (cp_simulation cp_constants no_faults))
   \<and> lorentz_factor_array
        (final_state (aw_simulation (aw_with_constants_of cp_constants) 0 no_faults))
      = lorentz_factor_array (final_state (cp_simulation cp_constants no_faults))
   \<and> temperature_array
        (final_state (aw_simulation (aw_with_constants_of cp_constants) 0 no_faults))
      = temperature_array (final_state (cp_simulation cp_constants no_faults))"
proof -
  have h: "0 \<le> acceleration cp_constants" "0 < damping_factor cp_constants"
    "0 < dt cp_constants" "damping_factor cp_constants * dt cp_constants \<le> 1"
    "acceleration cp_constants < damping_factor cp_constants * c cp_constants"
    "0 < observer_interval cp_constants"
    by (simp_all add: cp_constants_vals dt_cp)
  from C6_equal_constants [OF h, of 0 0] h show ?thesis
    by simp
qed


section \<open>The exported files\<close>

text \<open>
  Claim C8, as stated, fails. \<^verbatim>\<open>copyandpaste.py\<close> exports nothing: its run without
  faults ends with no file written. And the rows of the two CSV files of
  \<^verbatim>\<open>alien_weaponry.py\<close> do not hold the values of \<open>volume_array\<close>: two states that
  differ in \<open>volume_array[1]\<close> give the same rows.
\<close>

theorem C8_counterexample:
  "cp_script cp_constants no_faults = Inr []
   \<and> aw_csv_rows aw_constants
         ((aw_initial aw_constants)\<lparr>volume_array := (zeros 69000)[1 := 5]\<rparr>)
       = aw_csv_rows aw_constants (aw_initial aw_constants)
   \<and> aw_dataframe_rows aw_constants
         ((aw_initial aw_constants)\<lparr>volume_array := (zeros 69000)[1 := 5]\<rparr>)
       = aw_dataframe_rows aw_constants (aw_initial aw_constants)
   \<and> volume_array ((aw_initial aw_constants)\<lparr>volume_array := (zeros 69000)[1 := 5]\<rparr>) ! 1 = 5
   \<and> volume_array (aw_initial aw_constants) ! 1 = 0"
proof -
  have "cp_script cp_constants no_faults = Inr []"
    by (simp add: cp_script_def cp_simulation_def cp_loop_upto_no_fault)
  moreover have "aw_csv_row aw_constants
         ((aw_initial aw_constants)\<lparr>volume_array := (zeros 69000)[1 := 5]\<rparr>)
       = aw_csv_row aw_constants (aw_initial aw_constants)"
    by (rule ext) (simp add: aw_csv_row_def)
  moreover have "aw_dataframe_columns aw_constants
         ((aw_initial aw_constants)\<lparr>volume_array := (zeros 69000)[1 := 5]\<rparr>)
       = aw_dataframe_columns aw_constants (aw_initial aw_constants)"
    by (simp add: aw_dataframe_columns_def)
  moreover have "volume_array
      ((aw_initial aw_constants)\<lparr>volume_array := (zeros 69000)[1 := 5]\<rparr>) ! 1 = 5"
    by (simp add: zeros_def)
  moreover have "volume_array (aw_initial aw_constants) ! 1 = 0"
    by (simp add: aw_initial_def zeros_def length_time_array_aw)
  ultimately show ?thesis
    by (simp add: aw_csv_rows_def aw_dataframe_rows_def)
qed

text \<open>
  Claim C8, amended. After a loop that no exception has left, \<^verbatim>\<open>alien_weaponry.py\<close>
  writes three files: \<^verbatim>\<open>simulation_data.json\<close> with \<open>time_array\<close> and all eleven
  result arrays, and two CSV files (\<^verbatim>\<open>simulation_results.csv\<close>, \<^verbatim>\<open>simulation_data.csv\<close>)
  with one row per time step that holds the time and the stored value of every result
  array except \<open>volume_array\<close>. \<^verbatim>\<open>copyandpaste.py\<close> writes no file.
\<close>

theorem C8_exports:
  "aw_script aw_constants float_inf no_faults
     = Inr (aw_exports aw_constants
         (final_state (aw_simulation aw_constants float_inf no_faults)))
   \<and> aw_exports aw_constants s
     = [Json_file ''simulation_data.json'' (aw_simulation_data aw_constants s),
        Csv_file ''simulation_results.csv'' (aw_csv_rows aw_constants s),
        Csv_file ''simulation_data.csv'' (aw_dataframe_rows aw_constants s)]
   \<and> map snd (aw_simulation_data aw_constants s) = time_array aw_constants # aw_arrays s
   \<and> aw_csv_rows aw_constants s
     = map (\<lambda>i. time_array aw_constants ! i
              # map (\<lambda>a. a ! i)
                  (butlast (arrays s)
                   @ [time_dilation_array s, dimension_portal_probability_array s]))
         [0..<length (time_array aw_constants)]
   \<and> aw_dataframe_rows aw_constants s = aw_csv_rows aw_constants s
   \<and> cp_script cp_constants no_faults = Inr []"
proof -
  have "aw_script aw_constants float_inf no_faults
     = Inr (aw_exports aw_constants
         (final_state (aw_simulation aw_constants float_inf no_faults)))"
    by (simp add: aw_script_def aw_simulation_def aw_loop_upto_no_fault)
  moreover have "map snd (aw_simulation_data aw_constants s)
      = time_array aw_constants # aw_arrays s"
    by (simp add: aw_simulation_data_def aw_arrays_def arrays_def)
  moreover have rows: "aw_csv_rows aw_constants s
     = map (\<lambda>i. time_array aw_constants ! i
              # map (\<lambda>a. a ! i)
                  (butlast (arrays s)
                   @ [time_dilation_array s, dimension_portal_probability_array s]))
         [0..<length (time_array aw_constants)]"
    by (simp add: aw_csv_rows_def aw_csv_row_def arrays_def)
  moreover have "aw_dataframe_rows aw_constants s = aw_csv_rows aw_constants s"
    by (simp add: aw_dataframe_rows_def aw_dataframe_columns_def aw_csv_rows_def aw_csv_row_def)
  moreover have "cp_script cp_constants no_faults = Inr []"
    by (simp add: cp_script_def cp_simulation_def cp_loop_upto_no_fault)
  ultimately show ?thesis
    by (simp add: aw_exports_def)
qed

section \<open>The number of iterations\<close>

text \<open>The loop with the counted body computes what the loop computes.\<close>

lemma for_loop_counted_uncounted:
  "uncounted (for_loop (counted body) js (n, s)) = for_loop body js s"
proof (induction js arbitrary: n s)
  case Nil
  show ?case by (simp add: uncounted_def)
next
  case (Cons i js)
  show ?case
  proof (cases "body i s")
    case (Inl d)
    then show ?thesis
      by (cases d) (simp add: counted_def uncounted_def)
  next
    case (Inr s')
    with Cons [of "Suc n" s'] show ?thesis
      by (simp add: counted_def)
  qed
qed

text \<open>The counter never passes the number of indices, and reaches it when no exception
  leaves the loop.\<close>

lemma for_loop_counted_le:
  "fst (final_state (for_loop (counted body) js (n, s))) \<le> n + length js"
proof (induction js arbitrary: n s)
  case Nil
  show ?case by simp
next
  case (Cons i js)
  show ?case
  proof (cases "body i s")
    case (Inl d)
    then show ?thesis
      by (cases d) (simp add: counted_def)
  next
    case (Inr s')
    with Cons [of "Suc n" s'] show ?thesis
      by (simp add: counted_def)
  qed
qed

lemma for_loop_counted_Inr:
  "for_loop body js s = Inr s' \<Longrightarrow> for_loop (counted body) js (n, s) = Inr (n + length js, s')"
proof (induction js arbitrary: n s)
  case Nil
  then show ?case by simp
next
  case (Cons i js)
  show ?case
  proof (cases "body i s")
    case (Inl d)
    with Cons.prems show ?thesis by simp
  next
    case (Inr s1)
    with Cons.prems have "for_loop body js s1 = Inr s'" by simp
    from Cons.IH [OF this, of "Suc n"] Inr show ?thesis
      by (simp add: counted_def)
  qed
qed

lemma for_loop_all_Inr:
  assumes "\<And>i t. i \<in> set js \<Longrightarrow> \<exists>t'. body i t = Inr t'"
  shows "\<exists>s'. for_loop body js s = Inr s'"
  using assms
proof (induction js arbitrary: s)
  case Nil
  show ?case by simp
next
  case (Cons i js)
  from Cons.prems [of i s] obtain s1 where s1: "body i s = Inr s1"
    by auto
  have "\<exists>s'. for_loop body js s1 = Inr s'"
    by (rule Cons.IH) (simp add: Cons.prems)
  with s1 show ?case by simp
qed

lemma Inr_final_state: "r = Inr s \<Longrightarrow> r = Inr (final_state r)"
  by simp

text \<open>A run of \<^verbatim>\<open>copyandpaste.py\<close> whose only exception is an \<open>OverflowError\<close>, and a
  run of \<^verbatim>\<open>alien_weaponry.py\<close> whose only exception is a \<open>ZeroDivisionError\<close>, end
  normally.\<close>

lemma cp_simulation_caught:
  "cp_simulation k (fault_at i (OverflowError, p))
     = Inr (final_state (cp_simulation k (fault_at i (OverflowError, p))))"
proof -
  have "\<exists>s'. cp_simulation k (fault_at i (OverflowError, p)) = Inr s'"
    unfolding cp_simulation_def cp_loop_upto_def
    by (rule for_loop_all_Inr)
       (simp add: fault_at_def cp_iteration_None cp_iteration_OverflowError)
  then show ?thesis
    by (auto dest: Inr_final_state)
qed

lemma aw_iteration_ZeroDivisionError:
  "aw_iteration k float_inf (Some (ZeroDivisionError, p)) i s
     = Inr (aw_except_ZeroDivisionError float_inf i (exec (take p (aw_stmts k i)) s))"
  by (simp add: aw_iteration_def try_except_def aw_handlers_def)

lemma aw_simulation_caught:
  "aw_simulation k float_inf (fault_at i (ZeroDivisionError, p))
     = Inr (final_state (aw_simulation k float_inf (fault_at i (ZeroDivisionError, p))))"
proof -
  have "\<exists>s'. aw_simulation k float_inf (fault_at i (ZeroDivisionError, p)) = Inr s'"
    unfolding aw_simulation_def aw_loop_upto_def
    by (rule for_loop_all_Inr)
       (simp add: fault_at_def aw_iteration_None aw_iteration_ZeroDivisionError)
  then show ?thesis
    by (auto dest: Inr_final_state)
qed


text \<open>
  Claim C7. Each loop runs over a fixed number of steps and terminates. \<open>time_array\<close>
  has \<open>time_steps = total_time / dt\<close> entries, 69000 in \<^verbatim>\<open>alien_weaponry.py\<close> and 96000
  in \<^verbatim>\<open>copyandpaste.py\<close>. The loop is the recursion \<open>for_loop\<close> over the finite list
  \<open>range(1, len(time_array))\<close>, so it ends under every fault. Its iterations are counted
  by a counter carried through that same loop: forgetting the counter gives the
  simulation back. Under every fault the loop enters its body at most
  \<open>len(time_array) - 1\<close> times, and whenever no exception leaves the loop it has entered
  it exactly \<open>len(time_array) - 1\<close> times: 68999 and 95999. When nothing is raised the
  loop ends normally, with the body run at \<open>i = 1, ..., len(time_array) - 1\<close> in turn.
\<close>

theorem C7_fixed_number_of_iterations:
  assumes "aw_simulation aw_constants float_inf flts = Inr t"
    and "cp_simulation cp_constants flts' = Inr s"
  shows "length (time_array aw_constants) = 69000
   \<and> real (length (time_array aw_constants)) = time_steps aw_constants
   \<and> time_steps aw_constants = total_time aw_constants / dt aw_constants
   \<and> uncounted (aw_simulation_counted aw_constants float_inf g)
       = aw_simulation aw_constants float_inf g
   \<and> aw_iterations aw_constants float_inf g
       = fst (final_state (aw_simulation_counted aw_constants float_inf g))
   \<and> aw_iterations aw_constants float_inf g \<le> length (time_array aw_constants) - 1
   \<and> aw_simulation_counted aw_constants float_inf flts = Inr (68999, t)
   \<and> aw_iterations aw_constants float_inf flts = 68999
   \<and> aw_simulation_counted aw_constants float_inf no_faults
       = Inr (68999, fold (\<lambda>i. exec (aw_stmts aw_constants i)) [1..<69000]
                       (aw_initial aw_constants))
   \<and> aw_iterations aw_constants float_inf no_faults = 68999
   \<and> length (time_array cp_constants) = 96000
   \<and> real (length (time_array cp_constants)) = time_steps cp_constants
   \<and> time_steps cp_constants = total_time cp_constants / dt cp_constants
   \<and> uncounted (cp_simulation_counted cp_constants g) = cp_simulation cp_constants g
   \<and> cp_iterations cp_constants g = fst (final_state (cp_simulation_counted cp_constants g))
   \<and> cp_iterations cp_constants g \<le> length (time_array cp_constants) - 1
   \<and> cp_simulation_counted cp_constants flts' = Inr (95999, s)
   \<and> cp_iterations cp_constants flts' = 95999
   \<and> cp_simulation_counted cp_constants no_faults
       = Inr (95999, fold (\<lambda>i. exec (cp_stmts cp_constants i)) [1..<96000]
                       (cp_initial cp_constants))
   \<and> cp_iterations cp_constants no_faults = 95999"
proof -
  have a0: "real (length (time_array aw_constants)) = time_steps aw_constants"
    "time_steps aw_constants = total_time aw_constants / dt aw_constants"
    by (simp_all add: length_time_array_aw dt_aw aw_constants_vals)
  have c0: "real (length (time_array cp_constants)) = time_steps cp_constants"
    "time_steps cp_constants = total_time cp_constants / dt cp_constants"
    by (simp_all add: length_time_array_cp dt_cp cp_constants_vals)
  have a1: "uncounted (aw_simulation_counted aw_constants float_inf g)
       = aw_simulation aw_constants float_inf g"
    by (simp add: aw_simulation_counted_def aw_simulation_def aw_loop_upto_def
        for_loop_counted_uncounted)
  have c1: "uncounted (cp_simulation_counted cp_constants g) = cp_simulation cp_constants g"
    by (simp add: cp_simulation_counted_def cp_simulation_def cp_loop_upto_def
        for_loop_counted_uncounted)
  have a2: "aw_iterations aw_constants float_inf h
       = fst (final_state (aw_simulation_counted aw_constants float_inf h))" for h
    by (simp add: aw_iterations_def iterations_run_def aw_simulation_counted_def)
  have c2: "cp_iterations cp_constants h
       = fst (final_state (cp_simulation_counted cp_constants h))" for h
    by (simp add: cp_iterations_def iterations_run_def cp_simulation_counted_def)
  have a3: "aw_iterations aw_constants float_inf g \<le> length (time_array aw_constants) - 1"
    unfolding a2 aw_simulation_counted_def
    by (rule order_trans [OF for_loop_counted_le]) simp
  have c3: "cp_iterations cp_constants g \<le> length (time_array cp_constants) - 1"
    unfolding c2 cp_simulation_counted_def
    by (rule order_trans [OF for_loop_counted_le]) simp
  have a4: "aw_simulation_counted aw_constants float_inf h = Inr (68999, u)"
    if "aw_simulation aw_constants float_inf h = Inr u" for h u
    using for_loop_counted_Inr [OF that [unfolded aw_simulation_def aw_loop_upto_def], of 0]
    by (simp add: aw_simulation_counted_def length_time_array_aw)
  have c4: "cp_simulation_counted cp_constants h = Inr (95999, u)"
    if "cp_simulation cp_constants h = Inr u" for h u
    using for_loop_counted_Inr [OF that [unfolded cp_simulation_def cp_loop_upto_def], of 0]
    by (simp add: cp_simulation_counted_def length_time_array_cp)
  have a5: "aw_simulation aw_constants float_inf no_faults
      = Inr (fold (\<lambda>i. exec (aw_stmts aw_constants i)) [1..<69000] (aw_initial aw_constants))"
    by (simp add: aw_simulation_def aw_loop_upto_no_fault length_time_array_aw)
  have c5: "cp_simulation cp_constants no_faults
      = Inr (fold (\<lambda>i. exec (cp_stmts cp_constants i)) [1..<96000] (cp_initial cp_constants))"
    by (simp add: cp_simulation_def cp_loop_upto_no_fault length_time_array_cp)
  note a6 = a4 [OF assms(1)] a4 [OF a5]
  note c6 = c4 [OF assms(2)] c4 [OF c5]
  have a7: "aw_iterations aw_constants float_inf flts = 68999"
    "aw_iterations aw_constants float_inf no_faults = 68999"
    by (simp_all add: a2 a6)
  have c7: "cp_iterations cp_constants flts' = 95999"
    "cp_iterations cp_constants no_faults = 95999"
    by (simp_all add: c2 c6)
  from a0 a1 a2 [of g] a3 a6 a7 c0 c1 c2 [of g] c3 c6 c7
    length_time_array_aw length_time_array_cp
  show ?thesis by blast
qed

theorem C7_fixed_number_of_iterations_witness:
  "aw_simulation aw_constants 0 (fault_at 2 (ZeroDivisionError, 5))
     = Inr (final_state (aw_simulation aw_constants 0 (fault_at 2 (ZeroDivisionError, 5))))
   \<and> cp_simulation cp_constants (fault_at 2 (OverflowError, 6))
     = Inr (final_state (cp_simulation cp_constants (fault_at 2 (OverflowError, 6))))
   \<and> aw_simulation_counted aw_constants 0 (fault_at 2 (ZeroDivisionError, 5))
     = Inr (68999,
         final_state (aw_simulation aw_constants 0 (fault_at 2 (ZeroDivisionError, 5))))
   \<and> aw_iterations aw_constants 0 (fault_at 2 (ZeroDivisionError, 5)) = 68999
   \<and> cp_simulation_counted cp_constants (fault_at 2 (OverflowError, 6))
     = Inr (95999, final_state (cp_simulation cp_constants (fault_at 2 (OverflowError, 6))))
   \<and> cp_iterations cp_constants (fault_at 2 (OverflowError, 6)) = 95999
   \<and> aw_iterations aw_constants 0 no_faults = 68999
   \<and> cp_iterations cp_constants no_faults = 95999"
proof -
  have a: "aw_simulation aw_constants 0 (fault_at 2 (ZeroDivisionError, 5))
     = Inr (final_state (aw_simulation aw_constants 0 (fault_at 2 (ZeroDivisionError, 5))))"
    by (rule aw_simulation_caught)
  have c: "cp_simulation cp_constants (fault_at 2 (OverflowError, 6))
     = Inr (final_state (cp_simulation cp_constants (fault_at 2 (OverflowError, 6))))"
    by (rule cp_simulation_caught)
  from C7_fixed_number_of_iterations [OF a c] a c show ?thesis
    by blast
qed

end
